theory Spec2Isabelle
  imports Main "HOL-Library.Word" "HOL-Library.Sublist"
begin

unbundle bit_operations_syntax

section \<open>Python strings\<close>

text \<open>
  A Python \<open>str\<close> is modelled as a list of code points below 256: one \<open>char\<close> is one
  code point (not a UTF-8 byte), so \<open>length\<close> is Python's \<open>len\<close>. The built-ins below follow
  CPython on that range: \<open>str.isspace\<close> holds for the code points 9-13, 28-32, 133 and 160;
  \<open>str.lower\<close> adds 32 to A-Z and to the code points 192-222 except 215, which is
  setting bit 5 of the code point, clear on those ranges.
  The completion intent is also given on strings of any code points, further down.
\<close>

type_synonym str = string

datatype py_error = TypeError | AttributeError | ValueError | RecursionError

definition py_isspace :: "char \<Rightarrow> bool" where
  "py_isspace c = ((of_char c :: nat) \<in> set [9, 10, 11, 12, 13, 28, 29, 30, 31, 32, 133, 160])"

definition py_lower_char :: "char \<Rightarrow> char" where
  "py_lower_char c =
     (let n = (of_char c :: nat)
      in if (65 \<le> n \<and> n \<le> 90) \<or> (192 \<le> n \<and> n \<le> 222 \<and> n \<noteq> 215)
         then (case c of Char b0 b1 b2 b3 b4 b5 b6 b7 \<Rightarrow> Char b0 b1 b2 b3 b4 True b6 b7)
         else c)"

definition py_lower :: "str \<Rightarrow> str" where
  "py_lower s = map py_lower_char s"

definition py_strip :: "str \<Rightarrow> str" where
  "py_strip s = rev (dropWhile py_isspace (rev (dropWhile py_isspace s)))"

fun startswith :: "'a list \<Rightarrow> 'a list \<Rightarrow> bool" where
  "startswith s [] = True"
| "startswith [] (p # ps) = False"
| "startswith (c # cs) (p # ps) = (c = p \<and> startswith cs ps)"

text \<open>\<open>py_in sub s\<close> is Python's \<open>sub in s\<close> on strings.\<close>

fun py_in :: "'a list \<Rightarrow> 'a list \<Rightarrow> bool" where
  "py_in sub [] = (sub = [])"
| "py_in sub (c # cs) = (startswith (c # cs) sub \<or> py_in sub cs)"

definition is_ascii :: "char \<Rightarrow> bool" where
  "is_ascii c = ((of_char c :: nat) < 128)"

text \<open>\<open>str.encode()\<close>: UTF-8, two bytes for the code points 128-255.\<close>

type_synonym byte = "8 word"

definition encode :: "str \<Rightarrow> byte list" where
  "encode s = concat (map (\<lambda>c. let n = (of_char c :: nat)
                                 in if n < 128 then [of_nat n]
                                    else [of_nat (192 + n div 64), of_nat (128 + n mod 64)]) s)"

section \<open>HMAC-SHA256 of the standard library\<close>

text \<open>
  \<open>hashlib.sha256\<close> and \<open>hmac.new(key, msg, hashlib.sha256).hexdigest()\<close> belong to the
  Python standard library, not to this repository; they are written out after
  FIPS 180-4 and RFC 2104.
\<close>

type_synonym u32 = "32 word"
type_synonym sha_state = "u32 \<times> u32 \<times> u32 \<times> u32 \<times> u32 \<times> u32 \<times> u32 \<times> u32"

definition rotr :: "nat \<Rightarrow> u32 \<Rightarrow> u32" where
  "rotr n x = (drop_bit n x) OR (push_bit (32 - n) x)"

definition Ch :: "u32 \<Rightarrow> u32 \<Rightarrow> u32 \<Rightarrow> u32" where
  "Ch x y z = (x AND y) XOR (NOT x AND z)"

definition Maj :: "u32 \<Rightarrow> u32 \<Rightarrow> u32 \<Rightarrow> u32" where
  "Maj x y z = (x AND y) XOR (x AND z) XOR (y AND z)"

definition bsig0 :: "u32 \<Rightarrow> u32" where
  "bsig0 x = rotr 2 x XOR rotr 13 x XOR rotr 22 x"

definition bsig1 :: "u32 \<Rightarrow> u32" where
  "bsig1 x = rotr 6 x XOR rotr 11 x XOR rotr 25 x"

definition ssig0 :: "u32 \<Rightarrow> u32" where
  "ssig0 x = rotr 7 x XOR rotr 18 x XOR drop_bit 3 x"

definition ssig1 :: "u32 \<Rightarrow> u32" where
  "ssig1 x = rotr 17 x XOR rotr 19 x XOR drop_bit 10 x"

definition K256 :: "u32 list" where
  "K256 = [
  1116352408, 1899447441, 3049323471, 3921009573, 961987163, 1508970993, 2453635748, 2870763221,
  3624381080, 310598401, 607225278, 1426881987, 1925078388, 2162078206, 2614888103, 3248222580,
  3835390401, 4022224774, 264347078, 604807628, 770255983, 1249150122, 1555081692, 1996064986,
  2554220882, 2821834349, 2952996808, 3210313671, 3336571891, 3584528711, 113926993, 338241895,
  666307205, 773529912, 1294757372, 1396182291, 1695183700, 1986661051, 2177026350, 2456956037,
  2730485921, 2820302411, 3259730800, 3345764771, 3516065817, 3600352804, 4094571909, 275423344,
  430227734, 506948616, 659060556, 883997877, 958139571, 1322822218, 1537002063, 1747873779,
  1955562222, 2024104815, 2227730452, 2361852424, 2428436474, 2756734187, 3204031479, 3329325298]"

definition H0 :: sha_state where
  "H0 = (1779033703, 3144134277, 1013904242, 2773480762,
         1359893119, 2600822924, 528734635, 1541459225)"

text \<open>The message schedule; \<open>ws\<close> holds the words so far, newest first.\<close>

fun schedule :: "nat \<Rightarrow> u32 list \<Rightarrow> u32 list" where
  "schedule 0 ws = rev ws"
| "schedule (Suc n) ws =
     schedule n ((ssig1 (ws ! 1) + ws ! 6 + ssig0 (ws ! 14) + ws ! 15) # ws)"

definition round_step :: "u32 \<times> u32 \<Rightarrow> sha_state \<Rightarrow> sha_state" where
  "round_step kw st = (case (kw, st) of ((k, w), (a, b, c, d, e, f, g, h)) \<Rightarrow>
     (let t1 = h + bsig1 e + Ch e f g + k + w;
          t2 = bsig0 a + Maj a b c
      in (t1 + t2, a, b, c, d + t1, e, f, g)))"

definition add_state :: "sha_state \<Rightarrow> sha_state \<Rightarrow> sha_state" where
  "add_state s t =
     (case (s, t) of ((a, b, c, d, e, f, g, h), (a', b', c', d', e', f', g', h')) \<Rightarrow>
        (a + a', b + b', c + c', d + d', e + e', f + f', g + g', h + h'))"

definition be32 :: "byte list \<Rightarrow> u32" where
  "be32 bs = foldl (\<lambda>acc b. push_bit 8 acc OR ucast b) 0 bs"

fun words_of :: "nat \<Rightarrow> byte list \<Rightarrow> u32 list" where
  "words_of 0 bs = []"
| "words_of (Suc n) bs = be32 (take 4 bs) # words_of n (drop 4 bs)"

definition compress :: "sha_state \<Rightarrow> byte list \<Rightarrow> sha_state" where
  "compress st blk =
     add_state st (fold round_step (zip K256 (schedule 48 (rev (words_of 16 blk)))) st)"

definition be_bytes :: "nat \<Rightarrow> 'a::len word \<Rightarrow> byte list" where
  "be_bytes n v = map (\<lambda>i. ucast (drop_bit (8 * i) v)) (rev [0..<n])"

definition pad :: "byte list \<Rightarrow> byte list" where
  "pad m = m @ [0x80] @ replicate ((119 - length m mod 64) mod 64) 0
             @ be_bytes 8 (of_nat (8 * length m) :: 64 word)"

fun blocks :: "nat \<Rightarrow> sha_state \<Rightarrow> byte list \<Rightarrow> sha_state" where
  "blocks 0 st bs = st"
| "blocks (Suc n) st bs = blocks n (compress st (take 64 bs)) (drop 64 bs)"

definition sha256 :: "byte list \<Rightarrow> byte list" where
  "sha256 m = (let p = pad m in
     (case blocks (length p div 64) H0 p of (a, b, c, d, e, f, g, h) \<Rightarrow>
        concat (map (be_bytes 4) [a, b, c, d, e, f, g, h])))"

definition hmac_sha256 :: "byte list \<Rightarrow> byte list \<Rightarrow> byte list" where
  "hmac_sha256 key msg =
     (let k0 = (if length key > 64 then sha256 key else key);
          k = k0 @ replicate (64 - length k0) 0
      in sha256 (map (\<lambda>b. b XOR 0x5c) k @ sha256 (map (\<lambda>b. b XOR 0x36) k @ msg)))"

definition hexdigit :: "nat \<Rightarrow> char" where
  "hexdigit n = (''0123456789abcdef'') ! n"

definition hexdigest :: "byte list \<Rightarrow> str" where
  "hexdigest bs = concat (map (\<lambda>b. [hexdigit (unat b div 16), hexdigit (unat b mod 16)]) bs)"

text \<open>
  \<open>hmac.compare_digest\<close> on two \<open>str\<close> arguments raises \<open>TypeError\<close> when either holds a
  non-ASCII character, and otherwise compares them.
\<close>

definition compare_digest :: "str \<Rightarrow> str \<Rightarrow> py_error + bool" where
  "compare_digest a b =
     (if list_all is_ascii a \<and> list_all is_ascii b then Inr (a = b) else Inl TypeError)"

text \<open>\<open>hmac.new(secret.encode(), msg.encode(), hashlib.sha256).hexdigest()\<close>\<close>

definition hmac_sha256_hex :: "str \<Rightarrow> str \<Rightarrow> str" where
  "hmac_sha256_hex secret msg = hexdigest (hmac_sha256 (encode secret) (encode msg))"

section \<open>Signature verification\<close>

definition verify_signature :: "str \<Rightarrow> str \<Rightarrow> str \<Rightarrow> str \<Rightarrow> py_error + bool" where
  "verify_signature secret random_header body signature =
     (if secret = [] then Inr False
      else let expected = hmac_sha256_hex secret (random_header @ body)
           in compare_digest (py_lower expected) (py_lower signature))"

section \<open>Completion intent\<close>

definition explicit_phrases :: "str list" where
  "explicit_phrases =
     [''taak afronden'', ''taak afsluiten'', ''taak voltooien'',
      ''sluit de taak'', ''rond de taak af'', ''voltooi de taak'',
      ''markeer als klaar'', ''markeer als voltooid'', ''markeer als afgerond'',
      ''zet op klaar'', ''zet op done'', ''naar klaar verplaatsen'',
      ''taak is klaar'', ''taak is af'', ''taak voltooid'',
      ''dit is klaar'', ''alles is klaar'', ''alles afgerond'',
      ''we zijn klaar'', ''ik ben klaar'', ''klaar met de taak'']"

definition confirm_phrases :: "str list" where
  "confirm_phrases =
     [''kunnen we afronden'', ''kunnen we afsluiten'',
      ''mag de taak dicht'', ''taak dicht'', ''afronden?'',
      ''is de taak klaar'', ''ben je klaar'', ''zijn we klaar'',
      ''kan dit dicht'', ''sluiten we af'']"

text \<open>The result is \<open>'complete'\<close>, \<open>'confirm'\<close> or \<open>None\<close>, as in the source.\<close>

definition detect_completion_intent :: "str \<Rightarrow> str option" where
  "detect_completion_intent message =
     (let message_lower = py_strip (py_lower message)
      in if list_ex (\<lambda>phrase. py_in phrase message_lower) explicit_phrases
         then Some ''complete''
         else if list_ex (\<lambda>phrase. py_in phrase message_lower) confirm_phrases
         then Some ''confirm''
         else None)"

subsection \<open>Completion intent on Unicode strings\<close>

text \<open>
  The message that reaches \<open>detect_completion_intent\<close> is any Python \<open>str\<close>. Here a
  string is a list of code points of any size, and \<open>str.lower\<close>, which applies the case
  mapping of the Unicode database, is a parameter of the function. \<open>str.strip\<close> removes the
  29 code points for which \<open>str.isspace\<close> holds. The phrases are the ASCII phrases above.
\<close>

type_synonym ustr = "nat list"

definition of_str :: "str \<Rightarrow> ustr" where
  "of_str s = map of_char s"

definition u_isspace :: "nat \<Rightarrow> bool" where
  "u_isspace n = (n \<in> set [9, 10, 11, 12, 13, 28, 29, 30, 31, 32, 133, 160, 5760,
                           8192, 8193, 8194, 8195, 8196, 8197, 8198, 8199, 8200, 8201, 8202,
                           8232, 8233, 8239, 8287, 12288])"

definition u_strip :: "ustr \<Rightarrow> ustr" where
  "u_strip s = rev (dropWhile u_isspace (rev (dropWhile u_isspace s)))"

definition detect_completion_intent_u :: "(ustr \<Rightarrow> ustr) \<Rightarrow> ustr \<Rightarrow> str option" where
  "detect_completion_intent_u lower message =
     (let message_lower = u_strip (lower message)
      in if list_ex (\<lambda>phrase. py_in (of_str phrase) message_lower) explicit_phrases
         then Some ''complete''
         else if list_ex (\<lambda>phrase. py_in (of_str phrase) message_lower) confirm_phrases
         then Some ''confirm''
         else None)"

text \<open>
  \<open>str.lower\<close> and \<open>str.upper\<close> on the code points below U+0180 (Basic Latin, Latin-1
  Supplement, Latin Extended-A), one code point at a time as the Unicode database maps
  them there: U+0130 lower-cases to two code points, U+00DF and U+0149 upper-case to two,
  and the dotless i (U+0131) and the long s (U+017F) upper-case to the ASCII letters I and
  S. The mappings of the code points from U+0180 on are not written out: such a code point
  is left as it is.
\<close>

definition latin_lower_cp :: "nat \<Rightarrow> nat list" where
  "latin_lower_cp n =
     (if 65 \<le> n \<and> n \<le> 90 then [n + 32]
      else if 192 \<le> n \<and> n \<le> 222 \<and> n \<noteq> 215 then [n + 32]
      else if n = 304 then [105, 775]
      else if n = 376 then [255]
      else if even n \<and> (256 \<le> n \<and> n \<le> 302 \<or> 306 \<le> n \<and> n \<le> 310 \<or> 330 \<le> n \<and> n \<le> 374)
      then [n + 1]
      else if odd n \<and> (313 \<le> n \<and> n \<le> 327 \<or> 377 \<le> n \<and> n \<le> 381) then [n + 1]
      else [n])"

definition latin_upper_cp :: "nat \<Rightarrow> nat list" where
  "latin_upper_cp n =
     (if 97 \<le> n \<and> n \<le> 122 then [n - 32]
      else if n = 181 then [924]
      else if n = 223 then [83, 83]
      else if 224 \<le> n \<and> n \<le> 254 \<and> n \<noteq> 247 then [n - 32]
      else if n = 255 then [376]
      else if n = 305 then [73]
      else if n = 329 then [700, 78]
      else if n = 383 then [83]
      else if odd n \<and> (257 \<le> n \<and> n \<le> 303 \<or> 307 \<le> n \<and> n \<le> 311 \<or> 331 \<le> n \<and> n \<le> 375)
      then [n - 1]
      else if even n \<and> (314 \<le> n \<and> n \<le> 328 \<or> 378 \<le> n \<and> n \<le> 382) then [n - 1]
      else [n])"

definition latin_lower :: "ustr \<Rightarrow> ustr" where
  "latin_lower s = concat (map latin_lower_cp s)"

definition latin_upper :: "ustr \<Rightarrow> ustr" where
  "latin_upper s = concat (map latin_upper_cp s)"

section \<open>Conversation store\<close>

text \<open>
  \<open>conversation_history\<close> and \<open>key_facts\<close> are process-wide dictionaries keyed by the
  conversation token. The functions below take the dictionary and return the updated one.
  \<open>save_history\<close> and \<open>save_key_facts\<close> write a snapshot of the dictionary to a file and
  catch every failure; they do not change the dictionary and are left out. The reading of
  the clock in \<open>add_to_history\<close> is an argument.
\<close>

record message =
  role :: str
  name :: str
  content :: str
  timestamp :: str

type_synonym history_store = "str \<rightharpoonup> message list"
type_synonym facts_store = "str \<rightharpoonup> str list"

definition MAX_HISTORY_MESSAGES :: nat where
  "MAX_HISTORY_MESSAGES = 50"

definition MAX_MESSAGE_LENGTH_IN_HISTORY :: int where
  "MAX_MESSAGE_LENGTH_IN_HISTORY = 500"

text \<open>The slice \<open>xs[-n:]\<close> for a positive \<open>n\<close>.\<close>

definition py_last_n :: "nat \<Rightarrow> 'a list \<Rightarrow> 'a list" where
  "py_last_n n xs = drop (length xs - n) xs"

text \<open>\<open>d.get(token, [])\<close>\<close>

definition get_or_empty :: "(str \<rightharpoonup> 'a list) \<Rightarrow> str \<Rightarrow> 'a list" where
  "get_or_empty d token = (case d token of None \<Rightarrow> [] | Some xs \<Rightarrow> xs)"

definition add_key_fact :: "facts_store \<Rightarrow> str \<Rightarrow> str \<Rightarrow> bool \<times> facts_store" where
  "add_key_fact key_facts token fct =
     (let kf = (if key_facts token = None then key_facts(token \<mapsto> []) else key_facts);
          fs = get_or_empty kf token
      in if fct \<notin> set fs
         then (let fs1 = fs @ [fct];
                   fs2 = (if length fs1 > 20 then py_last_n 20 fs1 else fs1)
               in (True, kf(token \<mapsto> fs2)))
         else (False, kf))"

text \<open>The invariant of \<open>key_facts\<close>: at most 20 facts per token, none twice.\<close>

definition facts_ok :: "facts_store \<Rightarrow> bool" where
  "facts_ok kf = (\<forall>t. length (get_or_empty kf t) \<le> 20 \<and> distinct (get_or_empty kf t))"

definition get_key_facts :: "facts_store \<Rightarrow> str \<Rightarrow> str list" where
  "get_key_facts key_facts token = get_or_empty key_facts token"

definition add_to_history ::
  "history_store \<Rightarrow> str \<Rightarrow> str \<Rightarrow> str \<Rightarrow> str \<Rightarrow> str \<Rightarrow> history_store" where
  "add_to_history conversation_history token rl nm cont now =
     (let ch = (if conversation_history token = None
                then conversation_history(token \<mapsto> []) else conversation_history);
          h1 = get_or_empty ch token
                 @ [\<lparr>role = rl, name = nm, content = cont, timestamp = now\<rparr>];
          h2 = (if length h1 > MAX_HISTORY_MESSAGES * 2
                then py_last_n (MAX_HISTORY_MESSAGES * 2) h1 else h1)
      in ch(token \<mapsto> h2))"

text \<open>
  The slices \<open>s[:k]\<close> and \<open>s[k:]\<close> for any integer \<open>k\<close>: a negative bound counts from
  the end, and a bound outside the string is clipped.
\<close>

definition py_slice_to :: "'a list \<Rightarrow> int \<Rightarrow> 'a list" where
  "py_slice_to s k = (if 0 \<le> k then take (nat k) s else take (length s - nat (- k)) s)"

definition py_slice_from :: "'a list \<Rightarrow> int \<Rightarrow> 'a list" where
  "py_slice_from s k = (if 0 \<le> k then drop (nat k) s else drop (length s - nat (- k)) s)"

definition elision_marker :: str where
  "elision_marker = CHR 0x0A # ''...[ingekort]...'' @ [CHR 0x0A]"

definition truncate_message :: "str \<Rightarrow> int \<Rightarrow> str" where
  "truncate_message cont max_length =
     (if int (length cont) \<le> max_length then cont
      else let half = (max_length - 20) div 2
           in py_slice_to cont half @ elision_marker @ py_slice_from cont (- half))"

section \<open>The webhook handler\<close>

subsection \<open>Data\<close>

text \<open>An entry of \<open>BOTS\<close>, loaded from the configuration file.\<close>

record bot_config =
  secret :: str
  nextcloud_user :: str
  nextcloud_password :: str
  erpnext_user :: str
  config_dir :: str
  working_dir :: str

text \<open>A row of the table \<open>task_bots\<close> of the task database, keyed by the conversation token.\<close>

record task_bot =
  board_id :: nat
  stack_id :: nat
  card_id :: nat
  card_title :: str
  card_description :: str
  status :: str
  created_at :: str
  completed_at :: "str option"

text \<open>A stack of a Deck board, as listed by the Deck API.\<close>

record deck_stack =
  title :: str
  ident :: nat

text \<open>The result of \<open>extract_file_info\<close>.\<close>

record file_info =
  file_url :: str
  file_name :: str
  file_type :: str

datatype json = JNull | JBool bool | JNum int | JStr str | JArr "json list" | JObj "(str \<times> json) list"

record request =
  req_headers :: "str \<rightharpoonup> str"
  req_body :: str

text \<open>
  The messages the handler sends, by kind; the text of each in the source is:
  \<^item> \<open>ResetDone\<close>: "Gespreksgeschiedenis gewist. We beginnen opnieuw!"
  \<^item> \<open>HistoryCount n\<close>: "Dit gesprek bevat n berichten in de geschiedenis."
  \<^item> \<open>Whoami user erpnext_user config_dir\<close>: "Bot: ... ERPNext user: ... Config: ..."
  \<^item> \<open>RememberUsage\<close>: "Gebruik: /remember <feit om te onthouden>"
  \<^item> \<open>Remembered f\<close>: "Onthouden: f"; \<open>AlreadyRemembered\<close>: "Dit feit was al opgeslagen."
  \<^item> \<open>FactsList fs\<close>: the numbered facts, or "Geen opgeslagen feiten voor dit gesprek. ..."
  \<^item> \<open>Forgotten f\<close>: "Vergeten: f"; \<open>ForgetInvalid\<close>: "Ongeldig nummer. ...";
    \<open>ForgetUsage\<close>: "Gebruik: /forget <nummer>"
  \<^item> \<open>Help t\<close>: the help text, the task one with the card title when \<open>t\<close> is given
  \<^item> \<open>TaskDone t\<close>: "**Taak afgerond!** De taak "t" is gemarkeerd als voltooid en verplaatst
    naar Klaar. *Deze conversatie wordt over 3 seconden gesloten...*"
  \<^item> \<open>CompleteError\<close>: "Fout bij afronden van de taak."
  \<^item> \<open>NotTaskConversation\<close>: "Dit is geen taak-conversatie."
  \<^item> \<open>StatusInfo tb\<close>: "**Taak Status** ..." with the fields of the row
  \<^item> \<open>ConfirmPrompt t\<close>: "Wil je de taak "t" afronden? Typ **ja** of **/done** om te
    bevestigen, of stel nog een vraag als je verder wilt werken."
  \<^item> \<open>AudioDetected n\<close>: "Audio gedetecteerd (n). Transcriberen...";
    \<open>Transcription t\<close>: "**Transcriptie:** t"; \<open>TranscriptionFailed\<close>: "Transcriptie mislukt.";
    \<open>DownloadFailed\<close>: "Kon audio niet downloaden."
  \<^item> \<open>Working (Some t)\<close>: "Bezig met taak: t..."; \<open>Working None\<close>: "Impertio AI is aan het
    nadenken..."
  \<^item> \<open>Text s\<close>: the text \<open>s\<close> itself (the answer of the reasoning backend, or a message of
    a command handler that talks to an external service only).
\<close>

datatype reply =
    ResetDone | HistoryCount nat | Whoami str str str
  | RememberUsage | Remembered str | AlreadyRemembered
  | FactsList "str list" | Forgotten str | ForgetInvalid | ForgetUsage
  | Help "str option"
  | TaskDone str | CompleteError | NotTaskConversation | StatusInfo task_bot
  | ConfirmPrompt str
  | AudioDetected str | Transcription str | TranscriptionFailed | DownloadFailed
  | Working "str option"
  | Text str

text \<open>
  What the handler does to the outside, in order: the calls of \<open>verify_signature\<close> and of
  \<open>json.loads\<close> on the request body, \<open>send_message\<close>, the \<open>UPDATE\<close> of the task row
  (committed, or raised), the two Deck requests of \<open>move_card_to_done\<close>, \<open>time.sleep\<close>,
  \<open>close_conversation\<close>, \<open>add_comment_to_deck_card\<close>, a command handler that talks to an
  external service only, the download and transcription of an audio file, and
  \<open>call_claude\<close>.
\<close>

datatype effect =
    VerifySignature | JsonLoads
  | SendMessage str reply
  | DbUpdate str | DbUpdateRaised str
  | DeckGetStacks nat | DeckReorder nat nat nat nat
  | Sleep nat | CloseConversation str
  | DeckComment nat str
  | ExternalCommand str str
  | DownloadFile str | TranscribeAudio str
  | CallClaude

record state =
  conversation_history :: history_store
  key_facts :: facts_store
  task_bots :: "str \<rightharpoonup> task_bot"
  trace :: "effect list"

text \<open>
  The outside world during one request: library functions that are not written out
  (\<open>json.loads\<close>, \<open>int\<close>, \<open>str\<close> of a JSON value), the clock, and what the external
  services answer. \<open>json_loads\<close> gives \<open>Inr (Some v)\<close> for the parsed value, \<open>Inr None\<close>
  when \<open>json.loads\<close> raises \<open>JSONDecodeError\<close>, and \<open>Inl e\<close> when it raises another
  exception (\<open>RecursionError\<close> on a deeply nested text). \<open>db_readable\<close>: the task database file exists and the \<open>SELECT\<close> runs;
  \<open>db_writable\<close>: connecting, the \<open>UPDATE\<close> and the commit run. \<open>deck_get_stacks\<close> and
  \<open>deck_reorder\<close> give the HTTP status (and the stacks), or \<open>None\<close> when the request raises.
  \<open>external_command\<close> gives, for a command handler that talks to an external service only,
  the progress messages it sends and its last message.
\<close>

record env =
  json_loads :: "str \<Rightarrow> py_error + json option"
  py_int :: "str \<Rightarrow> int option"
  py_str :: "json \<Rightarrow> str"
  now :: "nat \<Rightarrow> str"
  send_ok :: "reply \<Rightarrow> bool"
  db_readable :: bool
  db_writable :: bool
  db_now :: str
  deck_get_stacks :: "nat \<Rightarrow> (nat \<times> deck_stack list) option"
  deck_reorder :: "nat \<Rightarrow> nat \<Rightarrow> nat \<Rightarrow> nat \<Rightarrow> nat option"
  deck_comment_ok :: bool
  external_command :: "str \<Rightarrow> str \<Rightarrow> str list \<times> str"
  extract_file_info :: "json \<Rightarrow> json \<Rightarrow> file_info option"
  download_nextcloud_file :: "str \<Rightarrow> str option"
  transcribe_audio :: "str \<Rightarrow> str option"
  call_claude :: str

type_synonym response = "(str \<times> str) \<times> nat"

definition log_effect :: "effect \<Rightarrow> state \<Rightarrow> state" where
  "log_effect e st = st\<lparr>trace := trace st @ [e]\<rparr>"

subsection \<open>External calls\<close>

definition send_message :: "env \<Rightarrow> str \<Rightarrow> reply \<Rightarrow> state \<Rightarrow> bool \<times> state" where
  "send_message ev token msg st = (send_ok ev msg, log_effect (SendMessage token msg) st)"

definition get_task_bot_by_token :: "env \<Rightarrow> state \<Rightarrow> str \<Rightarrow> task_bot option" where
  "get_task_bot_by_token ev st conversation_token =
     (if db_readable ev then task_bots st conversation_token else None)"

text \<open>
  \<open>move_card_to_done\<close> catches every exception and returns \<open>False\<close> then: a missing
  \<open>BOTS['maarten']\<close>, a request that raises.
\<close>

definition is_done_title :: "str \<Rightarrow> bool" where
  "is_done_title t = (let l = py_lower t
                      in py_in ''klaar'' l \<or> py_in ''done'' l \<or> py_in ''afgerond'' l)"

definition move_card_to_done ::
  "env \<Rightarrow> (str \<rightharpoonup> bot_config) \<Rightarrow> nat \<Rightarrow> nat \<Rightarrow> nat \<Rightarrow> state \<Rightarrow> bool \<times> state" where
  "move_card_to_done ev BOTS bid current_sid cid st =
     (case BOTS ''maarten'' of
        None \<Rightarrow> (False, st)
      | Some _ \<Rightarrow>
         (let st1 = log_effect (DeckGetStacks bid) st
          in case deck_get_stacks ev bid of
               None \<Rightarrow> (False, st1)
             | Some (code, stacks) \<Rightarrow>
                 if code \<noteq> 200 then (False, st1)
                 else (case find (\<lambda>s. is_done_title (title s)) stacks of
                         None \<Rightarrow> (False, st1)
                       | Some done_stack \<Rightarrow>
                           (let st2 = log_effect
                                        (DeckReorder bid current_sid cid (ident done_stack)) st1
                            in case deck_reorder ev bid current_sid cid (ident done_stack) of
                                 None \<Rightarrow> (False, st2)
                               | Some move_code \<Rightarrow> (move_code = 200, st2)))))"

text \<open>
  \<open>UPDATE task_bots SET status = 'completed', completed_at = datetime("now")
  WHERE conversation_token = token\<close>
\<close>

definition db_update_completed :: "str \<Rightarrow> str \<Rightarrow> (str \<rightharpoonup> task_bot) \<Rightarrow> (str \<rightharpoonup> task_bot)" where
  "db_update_completed at_time token rows =
     (case rows token of
        None \<Rightarrow> rows
      | Some row \<Rightarrow> rows(token \<mapsto> row\<lparr>status := ''completed'', completed_at := Some at_time\<rparr>))"

text \<open>
  \<open>complete_task\<close>: the update, then \<open>move_card_to_done\<close>, whose result is not looked
  at. An exception of the database leaves the \<open>try\<close> block before the card is moved.
\<close>

definition complete_task ::
  "env \<Rightarrow> (str \<rightharpoonup> bot_config) \<Rightarrow> str \<Rightarrow> task_bot \<Rightarrow> state \<Rightarrow> bool \<times> state" where
  "complete_task ev BOTS token tb st =
     (if db_writable ev
      then (let st1 = log_effect (DbUpdate token)
                        (st\<lparr>task_bots := db_update_completed (db_now ev) token (task_bots st)\<rparr>);
                (moved, st2) = move_card_to_done ev BOTS (board_id tb) (stack_id tb) (card_id tb) st1
            in (True, st2))
      else (False, log_effect (DbUpdateRaised token) st))"

definition close_conversation :: "str \<Rightarrow> state \<Rightarrow> state" where
  "close_conversation token st = log_effect (CloseConversation token) st"

text \<open>
  The block that follows \<open>complete_task\<close> at each of its three call sites in
  \<open>handle_webhook\<close> (the command \<open>/done\<close>, the verdict \<open>'complete'\<close>, the affirmation):
  on success the confirmation, three seconds of sleep and \<open>close_conversation\<close>; on failure
  the error message. The result is whether the task was completed and what \<open>send_message\<close>
  returned.
\<close>

definition complete_and_close ::
  "env \<Rightarrow> (str \<rightharpoonup> bot_config) \<Rightarrow> str \<Rightarrow> task_bot \<Rightarrow> state \<Rightarrow> (bool \<times> bool) \<times> state" where
  "complete_and_close ev BOTS token tb st =
     (let (completed, st1) = complete_task ev BOTS token tb st
      in if completed
         then (let (sent, st2) = send_message ev token (TaskDone (card_title tb)) st1;
                   st3 = log_effect (Sleep 3) st2;
                   st4 = close_conversation token st3
               in ((True, sent), st4))
         else (let (sent, st2) = send_message ev token CompleteError st1
               in ((False, sent), st2)))"

subsection \<open>Commands\<close>

definition status_response :: "bool \<Rightarrow> response" where
  "status_response success = ((''status'', if success then ''ok'' else ''failed''), 200)"

definition reply_with :: "env \<Rightarrow> str \<Rightarrow> reply \<Rightarrow> state \<Rightarrow> response \<times> state" where
  "reply_with ev token msg st =
     (let (success, st1) = send_message ev token msg st in (status_response success, st1))"

text \<open>
  The handlers of \<open>/task\<close>, \<open>/boards\<close>, \<open>/share\<close>, \<open>/upload\<close>, \<open>/zoek\<close>, \<open>/vind\<close>,
  \<open>/preview\<close> and \<open>/transcribe\<close> call external services and \<open>send_message\<close> only; they
  read and write neither store nor the task database. Each is one effect, followed by the
  messages the environment gives; the response reports the last \<open>send_message\<close>.
\<close>

definition run_external_command :: "env \<Rightarrow> str \<Rightarrow> str \<Rightarrow> str \<Rightarrow> state \<Rightarrow> response \<times> state" where
  "run_external_command ev token cmd arg st =
     (let (progress, final) = external_command ev cmd arg;
          st1 = log_effect (ExternalCommand cmd arg) st;
          st2 = fold (\<lambda>m s. snd (send_message ev token (Text m) s)) progress st1
      in reply_with ev token (Text final) st2)"

text \<open>\<open>xs.pop(i)\<close> for an index in range.\<close>

definition py_pop :: "'a list \<Rightarrow> nat \<Rightarrow> 'a list" where
  "py_pop xs i = take i xs @ drop (Suc i) xs"

text \<open>
  Lines 1688-2076 of \<open>handle_webhook\<close>: the chain of command tests, in the order of the
  source. The result is \<open>None\<close> when no test matches and the handler goes on.
\<close>

definition handle_command ::
  "env \<Rightarrow> (str \<rightharpoonup> bot_config) \<Rightarrow> str \<Rightarrow> bot_config \<Rightarrow> str \<Rightarrow> str \<Rightarrow> state
     \<Rightarrow> (response \<times> state) option" where
  "handle_command ev BOTS user cfg token message_content st =
     (let stripped = py_strip message_content;
          norm = py_lower stripped
      in if norm = ''/reset'' then
           Some (reply_with ev token ResetDone
                   (if conversation_history st token \<noteq> None
                    then st\<lparr>conversation_history := (conversation_history st)(token := None)\<rparr>
                    else st))
         else if norm = ''/history'' then
           Some (reply_with ev token
                   (HistoryCount (length (get_or_empty (conversation_history st) token))) st)
         else if norm = ''/whoami'' then
           Some (reply_with ev token (Whoami user (erpnext_user cfg) (config_dir cfg)) st)
         else if startswith norm ''/remember '' then
           (let fct = py_strip (drop 10 stripped)
            in if fct = [] then Some (reply_with ev token RememberUsage st)
               else (let (added, kf) = add_key_fact (key_facts st) token fct;
                         st1 = st\<lparr>key_facts := kf\<rparr>
                     in if added then Some (reply_with ev token (Remembered fct) st1)
                        else Some (reply_with ev token AlreadyRemembered st1)))
         else if norm = ''/facts'' then
           Some (reply_with ev token (FactsList (get_key_facts (key_facts st) token)) st)
         else if startswith norm ''/forget '' then
           (case py_int ev (py_strip (drop 8 stripped)) of
              None \<Rightarrow> Some (reply_with ev token ForgetUsage st)
            | Some n \<Rightarrow>
                (let fact_num = n - 1;
                     fs = get_or_empty (key_facts st) token
                 in if key_facts st token \<noteq> None \<and> 0 \<le> fact_num \<and> fact_num < int (length fs)
                    then Some (reply_with ev token (Forgotten (fs ! nat fact_num))
                                 (st\<lparr>key_facts :=
                                       (key_facts st)(token \<mapsto> py_pop fs (nat fact_num))\<rparr>))
                    else Some (reply_with ev token ForgetInvalid st)))
         else if startswith norm ''/task '' then
           Some (run_external_command ev token ''/task'' (py_strip (drop 6 stripped)) st)
         else if norm = ''/boards'' then
           Some (run_external_command ev token ''/boards'' [] st)
         else if norm = ''/help'' then
           Some (reply_with ev token
                   (Help (map_option card_title (get_task_bot_by_token ev st token))) st)
         else if startswith norm ''/share '' then
           Some (run_external_command ev token ''/share'' (py_strip (drop 7 stripped)) st)
         else if startswith norm ''/upload '' then
           Some (run_external_command ev token ''/upload'' (py_strip (drop 8 stripped)) st)
         else if startswith norm ''/zoek '' then
           Some (run_external_command ev token ''/zoek'' (py_strip (drop 6 stripped)) st)
         else if startswith norm ''/vind '' then
           Some (run_external_command ev token ''/vind'' (py_strip (drop 6 stripped)) st)
         else if startswith norm ''/preview '' then
           Some (run_external_command ev token ''/preview'' (py_strip (drop 9 stripped)) st)
         else if norm = ''/done'' then
           (case get_task_bot_by_token ev st token of
              Some tb \<Rightarrow>
                (let ((completed, sent), st1) = complete_and_close ev BOTS token tb st
                 in Some (status_response (if completed then True else sent), st1))
            | None \<Rightarrow> Some (reply_with ev token NotTaskConversation st))
         else if norm = ''/status'' then
           (case get_task_bot_by_token ev st token of
              Some tb \<Rightarrow> Some (reply_with ev token (StatusInfo tb) st)
            | None \<Rightarrow> Some (reply_with ev token NotTaskConversation st))
         else if norm = ''/transcribe'' then
           Some (run_external_command ev token ''/transcribe'' [] st)
         else None)"

subsection \<open>Completion by natural language\<close>

text \<open>Lines 2078-2100: the completion intent, tried when the task row is active.\<close>

definition handle_completion_intent ::
  "env \<Rightarrow> (str \<rightharpoonup> bot_config) \<Rightarrow> str \<Rightarrow> str \<Rightarrow> str \<Rightarrow> task_bot option \<Rightarrow> state
     \<Rightarrow> (response \<times> state) option" where
  "handle_completion_intent ev BOTS token actor_name message_content tbo st =
     (case tbo of
        None \<Rightarrow> None
      | Some tb \<Rightarrow>
          if status tb = ''active''
          then (let completion_intent = detect_completion_intent message_content
                in if completion_intent = Some ''complete''
                   then (let (r, st1) = complete_and_close ev BOTS token tb st
                         in Some (status_response True, st1))
                   else if completion_intent = Some ''confirm''
                   then (let (sent, st1) = send_message ev token (ConfirmPrompt (card_title tb)) st;
                             st2 = st1\<lparr>conversation_history :=
                                     add_to_history (conversation_history st1) token
                                       ''user'' actor_name message_content (now ev 0)\<rparr>;
                             st3 = st2\<lparr>conversation_history :=
                                     add_to_history (conversation_history st2) token
                                       ''assistant'' ''Claude''
                                       ''Vraag om bevestiging voor afronden taak'' (now ev 1)\<rparr>
                         in Some (status_response True, st3))
                   else None)
          else None)"

text \<open>
  Lines 2102-2117: the affirmation. The fourth literal of the source's list is \<open>ok\<close>
  followed by the code point U+8FBF, which no string of code points below 256 equals; the
  other five are listed.
\<close>

definition affirmations :: "str list" where
  "affirmations = [''ja'', ''yes'', ''ok'', ''bevestig'', ''akkoord'']"

definition handle_confirmation ::
  "env \<Rightarrow> (str \<rightharpoonup> bot_config) \<Rightarrow> str \<Rightarrow> str \<Rightarrow> task_bot option \<Rightarrow> state
     \<Rightarrow> (response \<times> state) option" where
  "handle_confirmation ev BOTS token message_content tbo st =
     (case tbo of
        None \<Rightarrow> None
      | Some tb \<Rightarrow>
          if py_lower (py_strip message_content) \<in> set affirmations
          then (let history = get_or_empty (conversation_history st) token
                in if history \<noteq> []
                      \<and> py_in ''bevestiging voor afronden'' (content (last history))
                   then (let (r, st1) = complete_and_close ev BOTS token tb st
                         in Some (status_response True, st1))
                   else None)
          else None)"

subsection \<open>The conversational turn\<close>

text \<open>
  The comment logged on the Deck card: the message is cut to 1000 characters less the
  prefix and the dots.
\<close>

definition deck_comment_text :: "str \<Rightarrow> int \<Rightarrow> str \<Rightarrow> str" where
  "deck_comment_text pre max_len msg =
     pre @ (if int (length msg) > max_len then py_slice_to msg max_len @ ''...'' else msg)"

definition log_deck_comment :: "task_bot option \<Rightarrow> str \<Rightarrow> state \<Rightarrow> state" where
  "log_deck_comment tbo text st =
     (case tbo of
        None \<Rightarrow> st
      | Some tb \<Rightarrow> if board_id tb \<noteq> 0 \<and> card_id tb \<noteq> 0
                   then log_effect (DeckComment (card_id tb) text) st else st)"

text \<open>
  Lines 2141-2209. \<open>get_history_context\<close> builds the prompt from the two stores without
  changing them; what the reasoning backend answers is given by the environment.
\<close>

definition converse ::
  "env \<Rightarrow> str \<Rightarrow> str \<Rightarrow> str \<Rightarrow> task_bot option \<Rightarrow> state \<Rightarrow> response \<times> state" where
  "converse ev token actor_name message_content tbo st =
     (let st1 = st\<lparr>conversation_history :=
                    add_to_history (conversation_history st) token
                      ''user'' actor_name message_content (now ev 0)\<rparr>;
          st2 = log_deck_comment tbo
                  (deck_comment_text (''**'' @ actor_name @ '':** '')
                     (1000 - (int (length (''**'' @ actor_name @ '':** '')) + 3)) message_content)
                  st1;
          task_context = get_task_bot_by_token ev st2 token;
          (sent, st3) = send_message ev token (Working (map_option card_title task_context)) st2;
          st4 = log_effect CallClaude st3;
          response = call_claude ev;
          st5 = st4\<lparr>conversation_history :=
                    add_to_history (conversation_history st4) token
                      ''assistant'' ''Claude'' response (now ev 1)\<rparr>;
          st6 = log_deck_comment task_context
                  (deck_comment_text ''**Claude AI:** '' (1000 - 18) response) st5
      in reply_with ev token (Text response) st6)"

text \<open>Lines 2119-2139: an attached audio file is transcribed first.\<close>

definition handle_default ::
  "env \<Rightarrow> json \<Rightarrow> json \<Rightarrow> str \<Rightarrow> str \<Rightarrow> str \<Rightarrow> task_bot option \<Rightarrow> state
     \<Rightarrow> response \<times> state" where
  "handle_default ev data message_parameters token actor_name message_content tbo st =
     (case extract_file_info ev data message_parameters of
        None \<Rightarrow> converse ev token actor_name message_content tbo st
      | Some fi \<Rightarrow>
          if file_type fi = ''audio'' \<and> file_url fi \<noteq> []
          then (let (s1, st1) = send_message ev token (AudioDetected (file_name fi)) st;
                    st2 = log_effect (DownloadFile (file_url fi)) st1
                in case download_nextcloud_file ev (file_url fi) of
                     None \<Rightarrow> (let (s3, st3) = send_message ev token DownloadFailed st2
                               in (status_response False, st3))
                   | Some local_path \<Rightarrow>
                       (let st3 = log_effect (TranscribeAudio local_path) st2
                        in case transcribe_audio ev local_path of
                             None \<Rightarrow> (let (s4, st4) = send_message ev token TranscriptionFailed st3
                                       in (status_response False, st4))
                           | Some transcription \<Rightarrow>
                               (let (s4, st4) = send_message ev token (Transcription transcription) st3
                                in converse ev token actor_name
                                     (''[Audio transcriptie]: '' @ transcription) tbo st4)))
          else converse ev token actor_name message_content tbo st)"

text \<open>Lines 2078-2209: the three steps after the commands, the task row read once.\<close>

definition handle_conversation ::
  "env \<Rightarrow> (str \<rightharpoonup> bot_config) \<Rightarrow> json \<Rightarrow> json \<Rightarrow> str \<Rightarrow> str \<Rightarrow> str \<Rightarrow> state
     \<Rightarrow> response \<times> state" where
  "handle_conversation ev BOTS data message_parameters token actor_name message_content st =
     (let tbo = get_task_bot_by_token ev st token
      in case handle_completion_intent ev BOTS token actor_name message_content tbo st of
           Some r \<Rightarrow> r
         | None \<Rightarrow>
             (case handle_confirmation ev BOTS token message_content tbo st of
                Some r \<Rightarrow> r
              | None \<Rightarrow>
                  handle_default ev data message_parameters token actor_name message_content
                    tbo st))"

text \<open>Lines 1688-2209: commands first, then the conversation.\<close>

definition handle_message ::
  "env \<Rightarrow> (str \<rightharpoonup> bot_config) \<Rightarrow> str \<Rightarrow> bot_config \<Rightarrow> json \<Rightarrow> json \<Rightarrow> str \<Rightarrow> str \<Rightarrow> str
     \<Rightarrow> state \<Rightarrow> response \<times> state" where
  "handle_message ev BOTS user cfg data message_parameters token actor_name message_content st =
     (case handle_command ev BOTS user cfg token message_content st of
        Some r \<Rightarrow> r
      | None \<Rightarrow>
          handle_conversation ev BOTS data message_parameters token actor_name message_content st)"

subsection \<open>The request\<close>

fun py_truthy :: "json \<Rightarrow> bool" where
  "py_truthy JNull = False"
| "py_truthy (JBool b) = b"
| "py_truthy (JNum n) = (n \<noteq> 0)"
| "py_truthy (JStr s) = (s \<noteq> [])"
| "py_truthy (JArr xs) = (xs \<noteq> [])"
| "py_truthy (JObj kvs) = (kvs \<noteq> [])"

text \<open>\<open>x.get(key, default)\<close>: an \<open>AttributeError\<close> unless \<open>x\<close> is a dictionary.\<close>

fun py_get :: "json \<Rightarrow> str \<Rightarrow> json \<Rightarrow> py_error + json" where
  "py_get (JObj kvs) k d = Inr (case map_of kvs k of None \<Rightarrow> d | Some v \<Rightarrow> v)"
| "py_get _ k d = Inl AttributeError"

definition bind_err :: "py_error + 'a \<Rightarrow> ('a \<Rightarrow> py_error + 'b) \<Rightarrow> py_error + 'b" where
  "bind_err m f = (case m of Inl e \<Rightarrow> Inl e | Inr x \<Rightarrow> f x)"

text \<open>\<open>x.get('id', '').split('/')[-1] if x.get('id') else None\<close>\<close>

definition last_segment :: "json \<Rightarrow> py_error + str option" where
  "last_segment x =
     bind_err (py_get x ''id'' (JStr [])) (\<lambda>v.
       if py_truthy v
       then (case v of
               JStr s \<Rightarrow> Inr (Some (rev (takeWhile (\<lambda>c. c \<noteq> CHR ''/'') (rev s))))
             | _ \<Rightarrow> Inl AttributeError)
       else Inr None)"

text \<open>\<open>str.isdigit\<close> on code points below 256: the digits and the superscripts 1, 2, 3.\<close>

definition py_isdigit :: "str \<Rightarrow> bool" where
  "py_isdigit s = (s \<noteq> [] \<and> list_all (\<lambda>c. (48 \<le> (of_char c :: nat) \<and> (of_char c :: nat) \<le> 57)
                                        \<or> (of_char c :: nat) \<in> set [178, 179, 185]) s)"

record activity =
  act_token :: str
  act_actor_name :: str
  act_content :: str
  act_parameters :: json
  act_reply_to :: "int option"

text \<open>
  Lines 1647-1686: what the handler reads from the parsed body. \<open>Inr None\<close> is the
  response \<open>{'status': 'ignored'}\<close>; \<open>Inl\<close> is an exception that nothing catches. A
  message content that is not a string raises when the handler slices or strips it. Around
  \<open>json.loads\<close> of the content, \<open>JSONDecodeError\<close> and \<open>TypeError\<close> are caught.
\<close>

definition parse_activity :: "env \<Rightarrow> json \<Rightarrow> py_error + activity option" where
  "parse_activity ev data =
     bind_err (py_get data ''type'' JNull) (\<lambda>activity_type.
     if activity_type \<noteq> JStr ''Create'' \<and> activity_type \<noteq> JStr ''Activity'' then Inr None
     else
     bind_err (py_get data ''actor'' (JObj [])) (\<lambda>actor.
     bind_err (py_get data ''object'' (JObj [])) (\<lambda>obj.
     bind_err (py_get data ''target'' (JObj [])) (\<lambda>target.
     bind_err (py_get obj ''content'' (JStr [])) (\<lambda>message_content_raw.
     bind_err (last_segment obj) (\<lambda>message_id.
     bind_err (last_segment target) (\<lambda>token.
     bind_err (py_get actor ''name'' (JStr ''Unknown'')) (\<lambda>actor_name.
     bind_err (case message_id of
                 None \<Rightarrow> Inr None
               | Some mid \<Rightarrow> if py_isdigit mid
                             then (case py_int ev mid of None \<Rightarrow> Inl ValueError
                                                       | Some n \<Rightarrow> Inr (Some n))
                             else Inr None) (\<lambda>reply_to.
     bind_err (py_get actor ''type'' JNull) (\<lambda>actor_type.
     if actor_type = JStr ''Application'' then Inr None
     else if \<not> py_truthy message_content_raw \<or> token = None \<or> token = Some [] then Inr None
     else
       bind_err
         (case message_content_raw of
            JStr raw \<Rightarrow>
              (case json_loads ev raw of
                 Inl e \<Rightarrow> (if e = TypeError then Inr (message_content_raw, JObj []) else Inl e)
               | Inr (Some (JObj kvs)) \<Rightarrow>
                   Inr (case map_of kvs ''message'' of None \<Rightarrow> message_content_raw | Some m \<Rightarrow> m,
                        case map_of kvs ''parameters'' of None \<Rightarrow> JObj [] | Some p \<Rightarrow> p)
               | Inr _ \<Rightarrow> Inr (message_content_raw, JObj []))
          | _ \<Rightarrow> Inr (message_content_raw, JObj []))
         (\<lambda>(message_content, message_parameters).
            case message_content of
              JStr s \<Rightarrow> Inr (Some \<lparr>act_token = (case token of Some t \<Rightarrow> t | None \<Rightarrow> []),
                                    act_actor_name = py_str ev actor_name,
                                    act_content = s,
                                    act_parameters = message_parameters,
                                    act_reply_to = reply_to\<rparr>)
            | JArr xs \<Rightarrow> Inl AttributeError
            | _ \<Rightarrow> Inl TypeError)))))))))))"

text \<open>\<open>request.headers.get(name, '')\<close>\<close>

definition header :: "request \<Rightarrow> str \<Rightarrow> str" where
  "header req nm = (case req_headers req nm of None \<Rightarrow> [] | Some v \<Rightarrow> v)"

text \<open>
  \<open>handle_webhook\<close>. \<open>Inl\<close> is an exception that leaves the handler (the framework answers
  500). Around \<open>json.loads\<close> of the body only \<open>JSONDecodeError\<close> is caught.
\<close>

definition handle_webhook ::
  "env \<Rightarrow> (str \<rightharpoonup> bot_config) \<Rightarrow> str \<Rightarrow> request \<Rightarrow> state \<Rightarrow> (py_error + response) \<times> state" where
  "handle_webhook ev BOTS user req st =
     (case BOTS user of
        None \<Rightarrow> (Inr ((''error'', ''Unknown bot''), 404), st)
      | Some cfg \<Rightarrow>
          (let signature = header req ''X-Nextcloud-Talk-Signature'';
               random_header = header req ''X-Nextcloud-Talk-Random'';
               body = req_body req;
               st1 = log_effect VerifySignature st
           in case verify_signature (secret cfg) random_header body signature of
                Inl e \<Rightarrow> (Inl e, st1)
              | Inr False \<Rightarrow> (Inr ((''error'', ''Invalid signature''), 401), st1)
              | Inr True \<Rightarrow>
                  (let st2 = log_effect JsonLoads st1
                   in case json_loads ev body of
                        Inl e \<Rightarrow> (Inl e, st2)
                      | Inr None \<Rightarrow> (Inr ((''error'', ''Invalid JSON''), 400), st2)
                      | Inr (Some data) \<Rightarrow>
                          (case parse_activity ev data of
                             Inl e \<Rightarrow> (Inl e, st2)
                           | Inr None \<Rightarrow> (Inr ((''status'', ''ignored''), 200), st2)
                           | Inr (Some a) \<Rightarrow>
                               (let (r, st3) = handle_message ev BOTS user cfg data
                                                 (act_parameters a) (act_token a)
                                                 (act_actor_name a) (act_content a) st2
                                in (Inr r, st3))))))"

subsection \<open>Vocabulary of the statements\<close>

text \<open>The tests of the command chain, on the stripped and lower-cased message.\<close>

definition is_command :: "str \<Rightarrow> bool" where
  "is_command norm =
     (norm \<in> set [''/reset'', ''/history'', ''/whoami'', ''/facts'', ''/boards'', ''/help'',
                  ''/done'', ''/status'', ''/transcribe'']
      \<or> list_ex (startswith norm)
           [''/remember '', ''/forget '', ''/task '', ''/share '', ''/upload '', ''/zoek '',
            ''/vind '', ''/preview ''])"

text \<open>The two requests of \<open>move_card_to_done\<close>.\<close>

definition is_deck_effect :: "effect \<Rightarrow> bool" where
  "is_deck_effect e = (case e of DeckGetStacks b \<Rightarrow> True | DeckReorder b s c d \<Rightarrow> True | _ \<Rightarrow> False)"

text \<open>
  What the completion procedure does for a token and a card title: the update of the row,
  the Deck requests, the confirmation or the error message, the sleep and the deletion.
\<close>

definition completion_effect :: "str \<Rightarrow> str \<Rightarrow> effect \<Rightarrow> bool" where
  "completion_effect token ttl e =
     (case e of
        DbUpdate t \<Rightarrow> t = token
      | DbUpdateRaised t \<Rightarrow> t = token
      | DeckGetStacks b \<Rightarrow> True
      | DeckReorder b s c d \<Rightarrow> True
      | SendMessage t m \<Rightarrow> t = token \<and> (m = TaskDone ttl \<or> m = CompleteError)
      | Sleep n \<Rightarrow> n = 3
      | CloseConversation t \<Rightarrow> t = token
      | _ \<Rightarrow> False)"

text \<open>The effects of a step: what the trace has gained.\<close>

definition new_effects :: "state \<Rightarrow> state \<Rightarrow> effect list" where
  "new_effects st st' = drop (length (trace st)) (trace st')"

subsection \<open>A concrete world\<close>

text \<open>
  One bot, one task conversation \<open>tok\<close> bound to card 42, a Deck board with a stack
  \<open>Klaar\<close>, and services that answer.
\<close>

definition demo_config :: bot_config where
  "demo_config = \<lparr>secret = ''geheim'', nextcloud_user = ''maarten'',
                  nextcloud_password = ''pw'', erpnext_user = ''maarten@example.com'',
                  config_dir = ''/home/maarten'', working_dir = ''/home/maarten''\<rparr>"

definition demo_bots :: "str \<rightharpoonup> bot_config" where
  "demo_bots = [''maarten'' \<mapsto> demo_config]"

definition demo_task :: task_bot where
  "demo_task = \<lparr>board_id = 3, stack_id = 8, card_id = 42, card_title = ''Offerte'',
                card_description = [], status = ''active'',
                created_at = ''2024-05-01 09:00:00'', completed_at = None\<rparr>"

definition demo_env :: env where
  "demo_env = \<lparr>json_loads = (\<lambda>s. Inr None), py_int = (\<lambda>s. None), py_str = (\<lambda>j. []),
               now = (\<lambda>n. ''2024-05-02T10:00:00''), send_ok = (\<lambda>m. True),
               db_readable = True, db_writable = True, db_now = ''2024-05-02 10:00:00'',
               deck_get_stacks = (\<lambda>b. Some (200, [\<lparr>title = ''Te doen'', ident = 8\<rparr>,
                                                    \<lparr>title = ''Klaar'', ident = 9\<rparr>])),
               deck_reorder = (\<lambda>b s c d. Some 200), deck_comment_ok = True,
               external_command = (\<lambda>c a. ([], [])),
               extract_file_info = (\<lambda>d p. None),
               download_nextcloud_file = (\<lambda>u. None), transcribe_audio = (\<lambda>p. None),
               call_claude = ''Waarmee kan ik helpen?''\<rparr>"

definition demo_prompt :: message where
  "demo_prompt = \<lparr>role = ''assistant'', name = ''Claude'',
                  content = ''Vraag om bevestiging voor afronden taak'',
                  timestamp = ''2024-05-02T09:59:00''\<rparr>"

text \<open>The task conversation with an empty history, and with a pending confirmation.\<close>

definition demo_state :: state where
  "demo_state = \<lparr>conversation_history = Map.empty, key_facts = Map.empty,
                 task_bots = [''tok'' \<mapsto> demo_task], trace = []\<rparr>"

definition demo_pending :: state where
  "demo_pending = demo_state\<lparr>conversation_history :=
      [''tok'' \<mapsto> [\<lparr>role = ''user'', name = ''Maarten'', content = ''kunnen we afronden'',
                       timestamp = ''2024-05-02T09:59:00''\<rparr>, demo_prompt]]\<rparr>"

section \<open>Properties of signature verification\<close>

lemma length_be_bytes: "length (be_bytes n v) = n"
  by (simp add: be_bytes_def)

lemma length_sha256: "length (sha256 m) = 32"
  by (simp add: sha256_def Let_def length_be_bytes split: prod.splits)

lemma hexdigit_props:
  assumes "n < 16"
  shows "is_ascii (hexdigit n) \<and> py_lower_char (hexdigit n) = hexdigit n
         \<and> hexdigit n \<noteq> CHR ''g''"
proof -
  from assms have "n \<in> {0,1,2,3,4,5,6,7,8,9,10,11,12,13,14,15}" by simp arith
  then show ?thesis
    by (auto simp: hexdigit_def is_ascii_def py_lower_char_def)
qed

lemma unat_byte_nibbles: "unat (b :: byte) div 16 < 16" "unat (b :: byte) mod 16 < 16"
proof -
  have "unat b < 256" using unsigned_less [of b] by simp
  then show "unat b div 16 < 16" by simp
  show "unat b mod 16 < 16" by simp
qed

lemma length_hexdigest: "length (hexdigest bs) = 2 * length bs"
  by (induction bs) (simp_all add: hexdigest_def)

lemma hexdigest_ascii: "list_all is_ascii (hexdigest bs)"
  by (induction bs) (simp_all add: hexdigest_def hexdigit_props unat_byte_nibbles)

lemma hexdigest_lower: "py_lower (hexdigest bs) = hexdigest bs"
  by (induction bs) (simp_all add: hexdigest_def hexdigit_props py_lower_def unat_byte_nibbles)

lemma hexdigest_no_g: "CHR ''g'' \<notin> set (hexdigest bs)"
proof (induction bs)
  case Nil
  show ?case by (simp add: hexdigest_def)
next
  case (Cons b bs)
  have "hexdigit (unat b div 16) \<noteq> CHR ''g''" "hexdigit (unat b mod 16) \<noteq> CHR ''g''"
    by (simp_all add: hexdigit_props unat_byte_nibbles)
  with Cons show ?case by (auto simp: hexdigest_def)
qed

lemma lower_char_ascii: "is_ascii c \<Longrightarrow> is_ascii (py_lower_char c)"
  by (cases c) (auto simp: is_ascii_def py_lower_char_def Let_def)

lemma lower_ascii: "list_all is_ascii s \<Longrightarrow> list_all is_ascii (py_lower s)"
  by (induction s) (simp_all add: py_lower_def lower_char_ascii)

lemma length_hmac_sha256_hex: "length (hmac_sha256_hex k m) = 64"
  by (simp add: hmac_sha256_hex_def length_hexdigest hmac_sha256_def Let_def length_sha256)

lemma hmac_sha256_hex_ascii: "list_all is_ascii (hmac_sha256_hex k m)"
  by (simp add: hmac_sha256_hex_def hexdigest_ascii)

lemma hmac_sha256_hex_lower: "py_lower (hmac_sha256_hex k m) = hmac_sha256_hex k m"
  by (simp add: hmac_sha256_hex_def hexdigest_lower)

lemma verify_signature_empty_secret: "verify_signature [] random_header bdy signature = Inr False"
  by (simp add: verify_signature_def)

lemma verify_signature_ascii:
  assumes "sec \<noteq> []" and "list_all is_ascii signature"
  shows "verify_signature sec random_header bdy signature =
         Inr (py_lower signature = hmac_sha256_hex sec (random_header @ bdy))"
  using assms
  by (simp add: verify_signature_def Let_def compare_digest_def hmac_sha256_hex_lower
        hmac_sha256_hex_ascii lower_ascii eq_commute)

lemma verify_signature_non_ascii:
  assumes "sec \<noteq> []" and "\<not> list_all is_ascii (py_lower signature)"
  shows "verify_signature sec random_header bdy signature = Inl TypeError"
  using assms by (simp add: verify_signature_def Let_def compare_digest_def)

lemma verify_signature_changed_char:
  assumes h: "sec \<noteq> []" "i < 64" "is_ascii c"
    "py_lower_char c \<noteq> hmac_sha256_hex sec (nonce @ bdy) ! i"
  shows "verify_signature sec nonce bdy ((hmac_sha256_hex sec (nonce @ bdy))[i := c])
           = Inr False"
proof -
  let ?d = "hmac_sha256_hex sec (nonce @ bdy)"
  have a: "list_all is_ascii (?d[i := c])"
    using hmac_sha256_hex_ascii [of sec "nonce @ bdy"] h(3)
    by (auto simp: list_all_iff dest!: subsetD [OF set_update_subset_insert])
  have "py_lower (?d[i := c]) ! i = py_lower_char c"
    using h(2) by (simp add: py_lower_def length_hmac_sha256_hex)
  then have "py_lower (?d[i := c]) \<noteq> ?d" using h(4) by auto
  then show ?thesis
    using verify_signature_ascii [OF h(1) a, of nonce bdy] by simp
qed

text \<open>
  C1 (amended). With an empty secret the verdict is false, whatever the signature. With a
  non-empty secret: the HMAC-SHA256 hex digest of nonce and body is accepted; a request
  with another nonce or body is accepted under that digest exactly when its own digest is
  the same; an ASCII signature is accepted exactly when its lower-cased form is the digest;
  so replacing one character of the digest by an ASCII character that is not that hex digit
  in either case is rejected.
\<close>

theorem verify_signature_spec:
  "verify_signature [] nonce bdy signature = Inr False
   \<and> (sec \<noteq> [] \<longrightarrow>
        verify_signature sec nonce bdy (hmac_sha256_hex sec (nonce @ bdy)) = Inr True
      \<and> verify_signature sec nonce' bdy' (hmac_sha256_hex sec (nonce @ bdy))
          = Inr (hmac_sha256_hex sec (nonce' @ bdy') = hmac_sha256_hex sec (nonce @ bdy))
      \<and> (list_all is_ascii signature \<longrightarrow>
            verify_signature sec nonce bdy signature
              = Inr (py_lower signature = hmac_sha256_hex sec (nonce @ bdy)))
      \<and> (i < 64 \<and> is_ascii c
            \<and> py_lower_char c \<noteq> hmac_sha256_hex sec (nonce @ bdy) ! i \<longrightarrow>
            verify_signature sec nonce bdy
              ((hmac_sha256_hex sec (nonce @ bdy))[i := c]) = Inr False))"
proof (intro conjI impI)
  show "verify_signature [] nonce bdy signature = Inr False"
    by (rule verify_signature_empty_secret)
next
  assume s: "sec \<noteq> []"
  show "verify_signature sec nonce bdy (hmac_sha256_hex sec (nonce @ bdy)) = Inr True"
    using s by (simp add: verify_signature_ascii hmac_sha256_hex_ascii hmac_sha256_hex_lower)
  show "verify_signature sec nonce' bdy' (hmac_sha256_hex sec (nonce @ bdy))
          = Inr (hmac_sha256_hex sec (nonce' @ bdy') = hmac_sha256_hex sec (nonce @ bdy))"
    using s
    by (simp add: verify_signature_ascii hmac_sha256_hex_ascii hmac_sha256_hex_lower eq_commute)
next
  assume "sec \<noteq> []" "list_all is_ascii signature"
  then show "verify_signature sec nonce bdy signature
              = Inr (py_lower signature = hmac_sha256_hex sec (nonce @ bdy))"
    by (rule verify_signature_ascii)
next
  assume "sec \<noteq> []"
    "i < 64 \<and> is_ascii c \<and> py_lower_char c \<noteq> hmac_sha256_hex sec (nonce @ bdy) ! i"
  then show "verify_signature sec nonce bdy
              ((hmac_sha256_hex sec (nonce @ bdy))[i := c]) = Inr False"
    by (simp add: verify_signature_changed_char)
qed

theorem verify_signature_spec_witness:
  "verify_signature ''s'' ''n'' ''b'' (hmac_sha256_hex ''s'' (''n'' @ ''b'')) = Inr True
   \<and> verify_signature ''s'' ''n'' ''b'' ''AB''
       = Inr (''ab'' = hmac_sha256_hex ''s'' (''n'' @ ''b''))
   \<and> verify_signature ''s'' ''n'' ''b''
       ((hmac_sha256_hex ''s'' (''n'' @ ''b''))[0 := CHR ''G'']) = Inr False"
proof -
  let ?d = "hmac_sha256_hex ''s'' (''n'' @ ''b'')"
  have g: "py_lower_char CHR ''G'' = CHR ''g''" "is_ascii CHR ''G''"
    by (simp_all add: py_lower_char_def is_ascii_def)
  have l: "py_lower ''AB'' = ''ab''" "list_all is_ascii ''AB''"
    by (simp_all add: py_lower_def py_lower_char_def is_ascii_def)
  have "?d ! 0 \<in> set ?d" by (rule nth_mem) (simp add: length_hmac_sha256_hex)
  then have n: "py_lower_char CHR ''G'' \<noteq> ?d ! 0"
    using hexdigest_no_g [of "hmac_sha256 (encode ''s'') (encode (''n'' @ ''b''))"]
    unfolding g hmac_sha256_hex_def by metis
  have s: "''s'' \<noteq> []" by simp
  show ?thesis
    using verify_signature_spec [of "''n''" "''b''" "''AB''" "''s''" "''n''" "''b''" 0 "CHR ''G''"]
      s l g(2) n
    by (simp del: append.simps)
qed

theorem verify_signature_counterexample:
  "verify_signature [] ''n'' ''b'' (hmac_sha256_hex [] (''n'' @ ''b'')) = Inr False
   \<and> verify_signature ''s'' ''n'' ''b''
       ((hmac_sha256_hex ''s'' (''n'' @ ''b''))[0 := CHR 0xE9]) = Inl TypeError"
proof -
  let ?d = "hmac_sha256_hex ''s'' (''n'' @ ''b'')"
  have e: "\<not> is_ascii (CHR 0xE9)" "py_lower_char (CHR 0xE9) = CHR 0xE9"
    by (simp_all add: is_ascii_def py_lower_char_def)
  have "length ?d = 64" by (rule length_hmac_sha256_hex)
  then obtain x xs where "?d = x # xs" by (cases ?d) auto
  then have "py_lower (?d[0 := CHR 0xE9]) = CHR 0xE9 # py_lower xs"
    by (simp add: py_lower_def e)
  then have "\<not> list_all is_ascii (py_lower (?d[0 := CHR 0xE9]))"
    by (simp add: e)
  then show ?thesis
    by (simp add: verify_signature_empty_secret verify_signature_non_ascii)
qed

section \<open>Properties of the conversation store\<close>

lemma py_last_n_snoc:
  assumes "0 < n"
  shows "py_last_n n (py_last_n n xs @ [x]) = py_last_n n (xs @ [x])"
proof (cases "length xs \<le> n")
  case True
  then show ?thesis by (simp add: py_last_n_def)
next
  case False
  then have "Suc (length xs) - n = Suc (length xs - n)" by simp
  with False assms show ?thesis by (simp add: py_last_n_def)
qed

lemma length_py_last_n: "length (py_last_n n xs) \<le> n"
  by (simp add: py_last_n_def)

lemma add_to_history_same:
  "get_or_empty (add_to_history hs t r n c ts) t =
     py_last_n 100 (get_or_empty hs t @ [\<lparr>role = r, name = n, content = c, timestamp = ts\<rparr>])"
  by (simp add: add_to_history_def get_or_empty_def Let_def MAX_HISTORY_MESSAGES_def
        py_last_n_def split: option.splits)

lemma add_to_history_other:
  "t' \<noteq> t \<Longrightarrow> get_or_empty (add_to_history hs t' r n c ts) t = get_or_empty hs t"
  by (simp add: add_to_history_def get_or_empty_def Let_def)

text \<open>A sequence of calls on one token, each given by the message it appends.\<close>

lemma append_messages_history:
  "get_or_empty
     (fold (\<lambda>m hs. add_to_history hs t (role m) (name m) (content m) (timestamp m)) msgs hs) t
   = (if msgs = [] then get_or_empty hs t else py_last_n 100 (get_or_empty hs t @ msgs))"
proof (induction msgs arbitrary: hs)
  case Nil
  show ?case by simp
next
  case (Cons m msgs)
  have m: "\<lparr>role = role m, name = name m, content = content m, timestamp = timestamp m\<rparr> = m"
    by simp
  show ?case
  proof (cases "msgs = []")
    case True
    then show ?thesis by (simp add: add_to_history_same m)
  next
    case False
    then obtain ys y where ys: "msgs = ys @ [y]" by (metis rev_exhaust)
    have "py_last_n 100 (py_last_n 100 (get_or_empty hs t @ [m]) @ ys @ [y])
          = py_last_n 100 (get_or_empty hs t @ [m] @ ys @ [y])"
    proof (induction ys arbitrary: y rule: rev_induct)
      case Nil
      show ?case using py_last_n_snoc [of 100 "get_or_empty hs t @ [m]" y] by simp
    next
      case (snoc z zs)
      have "py_last_n 100 ((py_last_n 100 (get_or_empty hs t @ [m]) @ zs @ [z]) @ [y])
            = py_last_n 100 (py_last_n 100 (py_last_n 100 (get_or_empty hs t @ [m]) @ zs @ [z]) @ [y])"
        by (simp add: py_last_n_snoc)
      also have "\<dots> = py_last_n 100 (py_last_n 100 (get_or_empty hs t @ [m] @ zs @ [z]) @ [y])"
        by (simp only: snoc.IH)
      also have "\<dots> = py_last_n 100 ((get_or_empty hs t @ [m] @ zs @ [z]) @ [y])"
        by (simp add: py_last_n_snoc)
      finally show ?case by simp
    qed
    with False show ?thesis
      using Cons.IH [of "add_to_history hs t (role m) (name m) (content m) (timestamp m)"]
      by (simp add: add_to_history_same m ys)
  qed
qed

text \<open>
  C3. From the empty store, after any sequence of \<open>add_to_history\<close> calls on one token,
  the stored history is the last 100 appended messages in call order, hence at most
  \<open>2 * MAX_HISTORY_MESSAGES = 100\<close> entries.
\<close>

theorem add_to_history_bound:
  "get_or_empty
     (fold (\<lambda>m hs. add_to_history hs t (role m) (name m) (content m) (timestamp m))
        msgs Map.empty) t
     = drop (length msgs - 2 * MAX_HISTORY_MESSAGES) msgs
   \<and> length (get_or_empty
        (fold (\<lambda>m hs. add_to_history hs t (role m) (name m) (content m) (timestamp m))
           msgs Map.empty) t) \<le> 2 * MAX_HISTORY_MESSAGES
   \<and> 2 * MAX_HISTORY_MESSAGES = 100"
proof -
  have e: "get_or_empty (Map.empty :: history_store) t = []"
    by (simp add: get_or_empty_def)
  show ?thesis
    unfolding append_messages_history e
    by (simp add: py_last_n_def MAX_HISTORY_MESSAGES_def) arith
qed

lemma add_key_fact_present:
  "fct \<in> set (get_or_empty kf t) \<Longrightarrow> add_key_fact kf t fct = (False, kf)"
proof -
  assume a: "fct \<in> set (get_or_empty kf t)"
  then obtain fs where fs: "kf t = Some fs" by (cases "kf t") (auto simp: get_or_empty_def)
  with a show ?thesis by (simp add: add_key_fact_def get_or_empty_def Let_def)
qed

lemma add_key_fact_absent:
  "fct \<notin> set (get_or_empty kf t) \<Longrightarrow>
     add_key_fact kf t fct = (True, kf(t \<mapsto> py_last_n 20 (get_or_empty kf t @ [fct])))"
  by (auto simp: add_key_fact_def get_or_empty_def Let_def py_last_n_def split: option.splits)

lemma get_or_empty_upd:
  "get_or_empty (kf(t \<mapsto> xs)) t' = (if t' = t then xs else get_or_empty kf t')"
  by (simp add: get_or_empty_def)

lemma set_py_last_n: "set (py_last_n n xs) \<subseteq> set xs"
  by (simp add: py_last_n_def set_drop_subset)

lemma distinct_py_last_n: "distinct xs \<Longrightarrow> distinct (py_last_n n xs)"
  by (simp add: py_last_n_def)

lemma add_key_facts_distinct:
  "distinct fs \<Longrightarrow>
     get_or_empty (fold (\<lambda>f kf. snd (add_key_fact kf t f)) fs Map.empty) t = py_last_n 20 fs"
proof (induction fs rule: rev_induct)
  case Nil
  show ?case by (simp add: get_or_empty_def py_last_n_def)
next
  case (snoc f fs)
  let ?kf = "fold (\<lambda>f kf. snd (add_key_fact kf t f)) fs Map.empty"
  from snoc have g: "get_or_empty ?kf t = py_last_n 20 fs" and n: "f \<notin> set fs" by simp_all
  from n have "f \<notin> set (get_or_empty ?kf t)" using set_py_last_n [of 20 fs] g by auto
  then have "add_key_fact ?kf t f = (True, ?kf(t \<mapsto> py_last_n 20 (get_or_empty ?kf t @ [f])))"
    by (rule add_key_fact_absent)
  then have "get_or_empty (snd (add_key_fact ?kf t f)) t = py_last_n 20 (py_last_n 20 fs @ [f])"
    by (simp add: get_or_empty_upd g)
  then show ?case by (simp add: py_last_n_snoc)
qed

lemma add_key_fact_preserves:
  assumes "facts_ok kf"
  shows "facts_ok (snd (add_key_fact kf t fct))"
proof (cases "fct \<in> set (get_or_empty kf t)")
  case True
  with assms show ?thesis by (simp add: add_key_fact_present)
next
  case False
  have "distinct (get_or_empty kf t @ [fct])" using assms False by (simp add: facts_ok_def)
  then have "distinct (py_last_n 20 (get_or_empty kf t @ [fct]))" by (rule distinct_py_last_n)
  with assms False show ?thesis
    by (simp add: add_key_fact_absent facts_ok_def get_or_empty_upd length_py_last_n)
qed

lemma add_key_facts_preserve:
  "facts_ok kf \<Longrightarrow> facts_ok (fold (\<lambda>c kf. snd (add_key_fact kf (fst c) (snd c))) calls kf)"
  by (induction calls arbitrary: kf) (simp_all add: add_key_fact_preserves)

text \<open>
  C4. \<open>add_key_fact\<close> returns \<open>False\<close> and leaves the store as it is when the fact is
  already stored for the token; otherwise it returns \<open>True\<close> and the token's list is the
  last 20 of the old list with the fact appended. From the empty store, 21 distinct facts
  leave the last 20, and after any sequence of calls the list of a token has at most 20
  entries, all different.
\<close>

theorem add_key_fact_spec:
  "(fct \<in> set (get_key_facts kf t) \<longrightarrow> add_key_fact kf t fct = (False, kf))
   \<and> (fct \<notin> set (get_key_facts kf t) \<longrightarrow>
        fst (add_key_fact kf t fct)
        \<and> get_key_facts (snd (add_key_fact kf t fct)) t
            = drop (length (get_key_facts kf t @ [fct]) - 20) (get_key_facts kf t @ [fct]))
   \<and> (distinct fs \<and> length fs = 21 \<longrightarrow>
        get_key_facts (fold (\<lambda>f kf. snd (add_key_fact kf t f)) fs Map.empty) t = tl fs)
   \<and> length (get_key_facts
        (fold (\<lambda>c kf. snd (add_key_fact kf (fst c) (snd c))) calls Map.empty) t) \<le> 20
   \<and> distinct (get_key_facts
        (fold (\<lambda>c kf. snd (add_key_fact kf (fst c) (snd c))) calls Map.empty) t)"
proof (intro conjI impI)
  assume "fct \<in> set (get_key_facts kf t)"
  then show "add_key_fact kf t fct = (False, kf)"
    by (simp add: get_key_facts_def add_key_fact_present)
next
  assume a: "fct \<notin> set (get_key_facts kf t)"
  then show "fst (add_key_fact kf t fct)"
    by (simp add: get_key_facts_def add_key_fact_absent)
  from a show "get_key_facts (snd (add_key_fact kf t fct)) t
            = drop (length (get_key_facts kf t @ [fct]) - 20) (get_key_facts kf t @ [fct])"
    by (simp add: get_key_facts_def add_key_fact_absent get_or_empty_upd py_last_n_def)
next
  assume "distinct fs \<and> length fs = 21"
  then have d: "distinct fs" and l: "length fs = 21" by simp_all
  from l have "drop 1 fs = tl fs" by (simp add: drop_Suc)
  with l show "get_key_facts (fold (\<lambda>f kf. snd (add_key_fact kf t f)) fs Map.empty) t = tl fs"
    by (simp add: get_key_facts_def add_key_facts_distinct [OF d] py_last_n_def)
next
  have "facts_ok Map.empty" by (simp add: facts_ok_def get_or_empty_def)
  then have ok: "facts_ok (fold (\<lambda>c kf. snd (add_key_fact kf (fst c) (snd c))) calls Map.empty)"
    by (rule add_key_facts_preserve)
  show "length (get_key_facts
        (fold (\<lambda>c kf. snd (add_key_fact kf (fst c) (snd c))) calls Map.empty) t) \<le> 20"
    using ok by (simp add: facts_ok_def get_key_facts_def)
  show "distinct (get_key_facts
        (fold (\<lambda>c kf. snd (add_key_fact kf (fst c) (snd c))) calls Map.empty) t)"
    using ok by (simp add: facts_ok_def get_key_facts_def)
qed

theorem add_key_fact_spec_witness:
  "add_key_fact [''t'' \<mapsto> [''a'']] ''t'' ''a'' = (False, [''t'' \<mapsto> [''a'']])
   \<and> fst (add_key_fact [''t'' \<mapsto> [''a'']] ''t'' ''b'')
   \<and> get_key_facts (snd (add_key_fact [''t'' \<mapsto> [''a'']] ''t'' ''b'')) ''t'' = [''a'', ''b'']
   \<and> get_key_facts (fold (\<lambda>f kf. snd (add_key_fact kf ''t'' f))
         [''f1'', ''f2'', ''f3'', ''f4'', ''f5'', ''f6'', ''f7'', ''f8'',
          ''f9'', ''f10'', ''f11'', ''f12'', ''f13'', ''f14'', ''f15'',
          ''f16'', ''f17'', ''f18'', ''f19'', ''f20'', ''f21'']
         Map.empty) ''t''
       = [''f2'', ''f3'', ''f4'', ''f5'', ''f6'', ''f7'', ''f8'', ''f9'',
          ''f10'', ''f11'', ''f12'', ''f13'', ''f14'', ''f15'', ''f16'',
          ''f17'', ''f18'', ''f19'', ''f20'', ''f21'']"
proof -
  let ?kf = "[''t'' \<mapsto> [''a'']] :: facts_store"
  let ?fs = "[''f1'', ''f2'', ''f3'', ''f4'', ''f5'', ''f6'', ''f7'', ''f8'',
          ''f9'', ''f10'', ''f11'', ''f12'', ''f13'', ''f14'', ''f15'',
          ''f16'', ''f17'', ''f18'', ''f19'', ''f20'', ''f21'']"
  have g: "get_key_facts ?kf ''t'' = [''a'']"
    by (simp add: get_key_facts_def get_or_empty_def)
  have a: "''a'' \<in> set (get_key_facts ?kf ''t'')" and b: "''b'' \<notin> set (get_key_facts ?kf ''t'')"
    unfolding g by simp_all
  have d: "distinct ?fs \<and> length ?fs = 21" by simp
  show ?thesis
    using add_key_fact_spec [where fct = "''a''" and kf = ?kf and t = "''t''" and fs = ?fs] a d
          add_key_fact_spec [where fct = "''b''" and kf = ?kf and t = "''t''" and fs = ?fs] b
    unfolding g by simp
qed

section \<open>Properties of the truncation\<close>

lemma length_elision_marker: "length elision_marker = 18"
  by (simp add: elision_marker_def)

lemma truncate_message_long:
  assumes "500 < length cont"
  shows "truncate_message cont 500
           = take 240 cont @ elision_marker @ drop (length cont - 240) cont"
  using assms by (simp add: truncate_message_def py_slice_to_def py_slice_from_def Let_def)

text \<open>
  C5. With the limit \<open>MAX_MESSAGE_LENGTH_IN_HISTORY = 500\<close>, \<open>truncate_message\<close> returns a
  content of at most 500 characters unchanged; a longer one becomes its first 240
  characters, the elision marker and its last 240 characters, which is a non-empty prefix,
  the marker and a non-empty suffix, of total length at most 500 plus the marker length.
\<close>

theorem truncate_message_spec:
  "(length cont \<le> 500 \<longrightarrow> truncate_message cont MAX_MESSAGE_LENGTH_IN_HISTORY = cont)
   \<and> (500 < length cont \<longrightarrow>
        truncate_message cont MAX_MESSAGE_LENGTH_IN_HISTORY
          = take 240 cont @ elision_marker @ drop (length cont - 240) cont
        \<and> take 240 cont \<noteq> [] \<and> prefix (take 240 cont) cont
        \<and> drop (length cont - 240) cont \<noteq> [] \<and> suffix (drop (length cont - 240) cont) cont
        \<and> elision_marker \<noteq> []
        \<and> length (truncate_message cont MAX_MESSAGE_LENGTH_IN_HISTORY)
            \<le> 500 + length elision_marker)"
proof (intro conjI impI)
  assume "length cont \<le> 500"
  then show "truncate_message cont MAX_MESSAGE_LENGTH_IN_HISTORY = cont"
    by (simp add: truncate_message_def MAX_MESSAGE_LENGTH_IN_HISTORY_def)
next
  assume l: "500 < length cont"
  show "truncate_message cont MAX_MESSAGE_LENGTH_IN_HISTORY
          = take 240 cont @ elision_marker @ drop (length cont - 240) cont"
    using l by (simp add: truncate_message_long MAX_MESSAGE_LENGTH_IN_HISTORY_def)
  show "take 240 cont \<noteq> []" using l by auto
  show "prefix (take 240 cont) cont" by (rule take_is_prefix)
  show "drop (length cont - 240) cont \<noteq> []" using l by simp
  show "suffix (drop (length cont - 240) cont) cont" by (rule suffix_drop)
  show "elision_marker \<noteq> []" by (simp add: elision_marker_def)
  show "length (truncate_message cont MAX_MESSAGE_LENGTH_IN_HISTORY)
            \<le> 500 + length elision_marker"
    using l
    by (simp add: truncate_message_long MAX_MESSAGE_LENGTH_IN_HISTORY_def length_elision_marker)
qed

theorem truncate_message_spec_witness:
  "truncate_message ''kort'' MAX_MESSAGE_LENGTH_IN_HISTORY = ''kort''
   \<and> truncate_message (replicate 501 CHR ''a'') MAX_MESSAGE_LENGTH_IN_HISTORY
       = replicate 240 CHR ''a'' @ elision_marker @ replicate 240 CHR ''a''
   \<and> length (truncate_message (replicate 501 CHR ''a'') MAX_MESSAGE_LENGTH_IN_HISTORY) = 498"
proof -
  have s: "length ''kort'' \<le> 500" by simp
  have l: "500 < length (replicate 501 CHR ''a'')" by simp
  show ?thesis
    using truncate_message_spec [of "''kort''"] s
          truncate_message_spec [of "replicate 501 CHR ''a''"] l
    by (simp add: length_elision_marker)
qed

section \<open>Properties of the completion intent\<close>

lemma startswith_prefix: "startswith s p = prefix p s"
  by (induction s p rule: startswith.induct) auto

lemma py_in_sublist: "py_in sub s = sublist sub s"
  by (induction s) (auto simp: startswith_prefix sublist_Cons_right)

lemma detect_completion_intent_lower:
  "py_lower m = py_lower m' \<Longrightarrow> detect_completion_intent m = detect_completion_intent m'"
  by (simp add: detect_completion_intent_def)

lemmas str_eval = py_strip_def py_lower_def py_lower_char_def py_isspace_def

lemma detect_examples:
  "detect_completion_intent ''taak is klaar'' = Some ''complete''"
  "detect_completion_intent ''is de taak klaar?'' = Some ''confirm''"
  "detect_completion_intent ''hoe gaat het'' = None"
  "detect_completion_intent ''zijn we klaar? ja, we zijn klaar'' = Some ''complete''"
  "detect_completion_intent ''  Taak Is KLAAR '' = Some ''complete''"
  by (simp_all add: detect_completion_intent_def explicit_phrases_def confirm_phrases_def str_eval)

text \<open>
  On strings of code points below 256: the verdicts of the three messages, the order of
  the two phrase lists, and equal verdicts for equal lower-cased forms.
\<close>

lemma detect_completion_intent_latin1:
  "detect_completion_intent ''taak is klaar'' = Some ''complete''
   \<and> detect_completion_intent ''is de taak klaar?'' = Some ''confirm''
   \<and> detect_completion_intent ''hoe gaat het'' = None
   \<and> detect_completion_intent ''zijn we klaar? ja, we zijn klaar'' = Some ''complete''
   \<and> (py_lower m = py_lower m' \<longrightarrow> detect_completion_intent m = detect_completion_intent m')
   \<and> detect_completion_intent m =
       (if \<exists>phrase \<in> set explicit_phrases. sublist phrase (py_strip (py_lower m))
        then Some ''complete''
        else if \<exists>phrase \<in> set confirm_phrases. sublist phrase (py_strip (py_lower m))
        then Some ''confirm'' else None)"
proof (intro conjI impI)
  assume "py_lower m = py_lower m'"
  then show "detect_completion_intent m = detect_completion_intent m'"
    by (rule detect_completion_intent_lower)
next
  show "detect_completion_intent m =
       (if \<exists>phrase \<in> set explicit_phrases. sublist phrase (py_strip (py_lower m))
        then Some ''complete''
        else if \<exists>phrase \<in> set confirm_phrases. sublist phrase (py_strip (py_lower m))
        then Some ''confirm'' else None)"
    by (simp add: detect_completion_intent_def list_ex_iff py_in_sublist)
qed (simp_all only: detect_examples)

section \<open>The completion intent on Unicode strings\<close>

lemmas ustr_eval = of_str_def latin_lower_def latin_lower_cp_def latin_upper_def
  latin_upper_cp_def u_strip_def u_isspace_def

lemma detect_completion_intent_u_lower:
  "lower m = lower m' \<Longrightarrow>
     detect_completion_intent_u lower m = detect_completion_intent_u lower m'"
  by (simp add: detect_completion_intent_u_def)

lemma detect_u_examples:
  "detect_completion_intent_u latin_lower (of_str ''taak is klaar'') = Some ''complete''"
  "detect_completion_intent_u latin_lower (of_str ''is de taak klaar?'') = Some ''confirm''"
  "detect_completion_intent_u latin_lower (of_str ''hoe gaat het'') = None"
  "detect_completion_intent_u latin_lower (of_str ''zijn we klaar? ja, we zijn klaar'')
     = Some ''complete''"
  by (simp_all add: detect_completion_intent_u_def explicit_phrases_def confirm_phrases_def
        ustr_eval)

lemma dotless_i_upper:
  "latin_upper (of_str ''taak '' @ [305] @ of_str ''s klaar'') = of_str ''TAAK IS KLAAR''"
  by (simp add: ustr_eval)

lemma dotless_i_verdicts:
  "detect_completion_intent_u latin_lower (of_str ''taak '' @ [305] @ of_str ''s klaar'') = None"
  "detect_completion_intent_u latin_lower (of_str ''TAAK IS KLAAR'') = Some ''complete''"
  by (simp_all add: detect_completion_intent_u_def explicit_phrases_def confirm_phrases_def
        ustr_eval)

text \<open>On strings of code points below 256 this is the function of the sections above.\<close>

lemma u_isspace_of_char: "u_isspace (of_char c) = py_isspace c"
proof -
  define n :: nat where "n = of_char c"
  have "n < 256" by (simp add: n_def)
  then have "(n \<in> set [9, 10, 11, 12, 13, 28, 29, 30, 31, 32, 133, 160, 5760,
                           8192, 8193, 8194, 8195, 8196, 8197, 8198, 8199, 8200, 8201, 8202,
                           8232, 8233, 8239, 8287, 12288])
      = (n \<in> set [9, 10, 11, 12, 13, 28, 29, 30, 31, 32, 133, 160])" by auto
  then show ?thesis by (simp only: u_isspace_def py_isspace_def n_def)
qed

lemma latin_lower_cp_of_char: "latin_lower_cp (of_char c) = [of_char (py_lower_char c)]"
proof (cases c)
  case (Char b0 b1 b2 b3 b4 b5 b6 b7)
  let ?lo = "of_bool b0 + 2 * of_bool b1 + 4 * of_bool b2 + 8 * of_bool b3 + 16 * of_bool b4 :: nat"
  have lo: "?lo \<le> 31" by (cases b0; cases b1; cases b2; cases b3; cases b4) simp_all
  have oc: "(of_char c :: nat) = ?lo + 32 * of_bool b5 + 64 * of_bool b6 + 128 * of_bool b7"
    unfolding Char by simp
  define k :: nat where "k = of_char c"
  have n: "k < 256" by (simp add: k_def)
  show ?thesis
  proof (cases "(65 \<le> (of_char c :: nat) \<and> (of_char c :: nat) \<le> 90)
      \<or> (192 \<le> (of_char c :: nat) \<and> (of_char c :: nat) \<le> 222 \<and> (of_char c :: nat) \<noteq> 215)")
    case False
    then have "py_lower_char c = c" unfolding py_lower_char_def Let_def by (simp only: if_False)
    moreover have "latin_lower_cp k = [k]"
      using False n unfolding latin_lower_cp_def k_def [symmetric] by auto
    then have "latin_lower_cp (of_char c) = [of_char c]" by (simp only: k_def)
    ultimately show ?thesis by simp
  next
    case True
    then have b5: "\<not> b5" unfolding oc using lo by (cases b5; cases b6; cases b7) auto
    have "py_lower_char c = Char b0 b1 b2 b3 b4 True b6 b7"
      using True unfolding py_lower_char_def Let_def Char by (simp only: if_True char.case)
    then have "(of_char (py_lower_char c) :: nat) = of_char c + 32"
      unfolding Char using b5 by simp
    moreover have "latin_lower_cp k = [k + 32]"
      using True unfolding latin_lower_cp_def k_def [symmetric] by auto
    then have "latin_lower_cp (of_char c) = [of_char c + 32]" by (simp only: k_def)
    ultimately show ?thesis by simp
  qed
qed

lemma latin_lower_of_str: "latin_lower (of_str s) = of_str (py_lower s)"
  by (induction s) (simp_all add: latin_lower_def of_str_def py_lower_def latin_lower_cp_of_char)

lemma u_strip_of_str: "u_strip (of_str s) = of_str (py_strip s)"
proof -
  have c: "u_isspace \<circ> of_char = py_isspace"
    by (rule ext) (simp add: u_isspace_of_char)
  have d: "dropWhile u_isspace (map of_char xs) = map of_char (dropWhile py_isspace xs)" for xs
    by (simp add: dropWhile_map c)
  show ?thesis
    by (simp add: u_strip_def py_strip_def of_str_def d rev_map)
qed

lemma startswith_of_str: "startswith (of_str s) (of_str p) = startswith s p"
  by (induction s p rule: startswith.induct) (simp_all add: of_str_def)

lemma py_in_of_str: "py_in (of_str p) (of_str s) = py_in p s"
proof (induction s)
  case Nil
  show ?case by (simp add: of_str_def)
next
  case (Cons c cs)
  have "startswith (of_str (c # cs)) (of_str p) = startswith (c # cs) p"
    by (rule startswith_of_str)
  with Cons show ?case by (simp add: of_str_def)
qed

lemma detect_completion_intent_u_of_str:
  "detect_completion_intent_u latin_lower (of_str m) = detect_completion_intent m"
  by (simp add: detect_completion_intent_u_def detect_completion_intent_def latin_lower_of_str
        u_strip_of_str py_in_of_str)

text \<open>
  C6 (amended). \<open>detect_completion_intent\<close> depends on the message through its lower-cased
  form only, whatever case mapping \<open>str.lower\<close> applies: two messages with the same
  \<open>str.lower\<close> form get the same verdict. The verdict is \<open>'complete'\<close> when an explicit phrase
  is a substring of the lower-cased, stripped message, also when a confirmation phrase
  occurs as well; \<open>'confirm'\<close> when no explicit phrase but a confirmation phrase is;
  \<open>None\<close> otherwise. The three messages of the claim get the verdicts it names.
\<close>

theorem detect_completion_intent_unicode_spec:
  "detect_completion_intent_u latin_lower (of_str ''taak is klaar'') = Some ''complete''
   \<and> detect_completion_intent_u latin_lower (of_str ''is de taak klaar?'') = Some ''confirm''
   \<and> detect_completion_intent_u latin_lower (of_str ''hoe gaat het'') = None
   \<and> detect_completion_intent_u latin_lower (of_str ''zijn we klaar? ja, we zijn klaar'')
       = Some ''complete''
   \<and> (lower m = lower m' \<longrightarrow>
        detect_completion_intent_u lower m = detect_completion_intent_u lower m')
   \<and> detect_completion_intent_u lower m =
       (if \<exists>phrase \<in> set explicit_phrases. sublist (of_str phrase) (u_strip (lower m))
        then Some ''complete''
        else if \<exists>phrase \<in> set confirm_phrases. sublist (of_str phrase) (u_strip (lower m))
        then Some ''confirm'' else None)"
proof (intro conjI impI)
  assume "lower m = lower m'"
  then show "detect_completion_intent_u lower m = detect_completion_intent_u lower m'"
    by (rule detect_completion_intent_u_lower)
next
  show "detect_completion_intent_u lower m =
       (if \<exists>phrase \<in> set explicit_phrases. sublist (of_str phrase) (u_strip (lower m))
        then Some ''complete''
        else if \<exists>phrase \<in> set confirm_phrases. sublist (of_str phrase) (u_strip (lower m))
        then Some ''confirm'' else None)"
    by (simp add: detect_completion_intent_u_def list_ex_iff py_in_sublist)
qed (simp_all only: detect_u_examples)

theorem detect_completion_intent_unicode_spec_witness:
  "latin_lower (of_str ''Taak IS klaar'') = latin_lower (of_str ''taak is KLAAR'')
   \<and> detect_completion_intent_u latin_lower (of_str ''Taak IS klaar'')
       = detect_completion_intent_u latin_lower (of_str ''taak is KLAAR'')
   \<and> (\<exists>phrase \<in> set explicit_phrases.
         sublist (of_str phrase) (u_strip (latin_lower (of_str ''Taak IS klaar''))))
   \<and> detect_completion_intent_u latin_lower (of_str ''Taak IS klaar'') = Some ''complete''"
proof -
  have l: "latin_lower (of_str ''Taak IS klaar'') = latin_lower (of_str ''taak is KLAAR'')"
    by (simp add: ustr_eval)
  have p: "u_strip (latin_lower (of_str ''Taak IS klaar'')) = of_str ''taak is klaar''"
    by (simp add: ustr_eval)
  have "py_in (of_str ''taak is klaar'') (of_str ''taak is klaar'')"
    unfolding py_in_of_str by simp
  then have s: "sublist (of_str ''taak is klaar'') (of_str ''taak is klaar'')"
    by (simp only: py_in_sublist)
  have e: "''taak is klaar'' \<in> set explicit_phrases" by (simp add: explicit_phrases_def)
  from s e p have x: "\<exists>phrase \<in> set explicit_phrases.
      sublist (of_str phrase) (u_strip (latin_lower (of_str ''Taak IS klaar'')))" by metis
  note T = detect_completion_intent_unicode_spec [of latin_lower "of_str ''Taak IS klaar''"
      "of_str ''taak is KLAAR''"]
  from T l have c1: "detect_completion_intent_u latin_lower (of_str ''Taak IS klaar'')
      = detect_completion_intent_u latin_lower (of_str ''taak is KLAAR'')" by blast
  from T have "detect_completion_intent_u latin_lower (of_str ''Taak IS klaar'') =
       (if \<exists>phrase \<in> set explicit_phrases.
             sublist (of_str phrase) (u_strip (latin_lower (of_str ''Taak IS klaar'')))
        then Some ''complete''
        else if \<exists>phrase \<in> set confirm_phrases.
                  sublist (of_str phrase) (u_strip (latin_lower (of_str ''Taak IS klaar'')))
        then Some ''confirm'' else None)" by blast
  then have c2: "detect_completion_intent_u latin_lower (of_str ''Taak IS klaar'')
      = Some ''complete''"
    by (simp only: x if_True)
  from l c1 x c2 show ?thesis by blast
qed

text \<open>
  The claim's last clause fails where a case change leaves ASCII: the dotless i (U+0131) is
  its own lower case and its upper case is the letter I. "taak \<open>U+0131\<close>s klaar" holds no
  phrase; its upper-casing is "TAAK IS KLAAR", which lower-cases to the phrase
  "taak is klaar".
\<close>

theorem detect_completion_intent_unicode_counterexample:
  "latin_upper (of_str ''taak '' @ [305] @ of_str ''s klaar'') = of_str ''TAAK IS KLAAR''
   \<and> detect_completion_intent_u latin_lower (of_str ''taak '' @ [305] @ of_str ''s klaar'')
       = None
   \<and> detect_completion_intent_u latin_lower (of_str ''TAAK IS KLAAR'') = Some ''complete''"
  by (simp only: dotless_i_upper dotless_i_verdicts simp_thms)

section \<open>Stripping and lower-casing\<close>

lemma of_char_bits:
  "\<exists>lo \<le> 31. (of_char (Char b0 b1 b2 b3 b4 b5 b6 b7) :: nat)
      = lo + 32 * of_bool b5 + 64 * of_bool b6 + 128 * of_bool b7"
proof -
  let ?lo = "of_bool b0 + 2 * of_bool b1 + 4 * of_bool b2 + 8 * of_bool b3 + 16 * of_bool b4 :: nat"
  have "?lo \<le> 31" by (cases b0; cases b1; cases b2; cases b3; cases b4) simp_all
  moreover have "(of_char (Char b0 b1 b2 b3 b4 b5 b6 b7) :: nat)
      = ?lo + 32 * of_bool b5 + 64 * of_bool b6 + 128 * of_bool b7" by simp
  ultimately show ?thesis by blast
qed

lemma bit6_not_space: "\<not> py_isspace (Char b0 b1 b2 b3 b4 b5 True b7)"
proof -
  obtain lo :: nat where lo: "lo \<le> 31"
    and oc: "(of_char (Char b0 b1 b2 b3 b4 b5 True b7) :: nat)
               = lo + 32 * of_bool b5 + 64 * of_bool True + 128 * of_bool b7"
    using of_char_bits [of b0 b1 b2 b3 b4 b5 True b7] by blast
  show ?thesis
    unfolding py_isspace_def oc using lo by (cases b5; cases b7) auto
qed

lemma py_isspace_lower_char: "py_isspace (py_lower_char c) = py_isspace c"
proof (cases c)
  case (Char b0 b1 b2 b3 b4 b5 b6 b7)
  obtain lo :: nat where lo: "lo \<le> 31"
    and oc: "(of_char c :: nat) = lo + 32 * of_bool b5 + 64 * of_bool b6 + 128 * of_bool b7"
    unfolding Char using of_char_bits [of b0 b1 b2 b3 b4 b5 b6 b7] by blast
  show ?thesis
  proof (cases "(65 \<le> (of_char c :: nat) \<and> (of_char c :: nat) \<le> 90)
      \<or> (192 \<le> (of_char c :: nat) \<and> (of_char c :: nat) \<le> 222 \<and> (of_char c :: nat) \<noteq> 215)")
    case False
    then show ?thesis unfolding py_lower_char_def Let_def by (simp only: if_False)
  next
    case True
    then have b6: "b6" unfolding oc using lo by (cases b5; cases b6; cases b7) auto
    have a: "\<not> py_isspace c" unfolding Char using b6 bit6_not_space by simp
    have "py_lower_char c = Char b0 b1 b2 b3 b4 True b6 b7"
      using True unfolding py_lower_char_def Let_def Char by (simp only: if_True char.case)
    then show ?thesis using a b6 bit6_not_space by simp
  qed
qed

lemma py_strip_lower: "py_strip (py_lower s) = py_lower (py_strip s)"
proof -
  have c: "py_isspace \<circ> py_lower_char = py_isspace"
    by (rule ext) (simp add: py_isspace_lower_char)
  have d: "dropWhile py_isspace (map py_lower_char xs) = map py_lower_char (dropWhile py_isspace xs)" for xs
    by (simp add: dropWhile_map c)
  show ?thesis
    by (simp add: py_strip_def py_lower_def d rev_map)
qed

section \<open>Properties of the completion procedure\<close>

lemma move_card_to_done_effects:
  "\<exists>es. list_all is_deck_effect es
     \<and> snd (move_card_to_done ev BOTS b s c st) = st\<lparr>trace := trace st @ es\<rparr>"
proof (cases "BOTS ''maarten''")
  case None
  then have "snd (move_card_to_done ev BOTS b s c st) = st\<lparr>trace := trace st @ []\<rparr>"
    by (simp add: move_card_to_done_def)
  then show ?thesis by (intro exI [of _ "[]"]) simp
next
  case (Some m)
  let ?st1 = "st\<lparr>trace := trace st @ [DeckGetStacks b]\<rparr>"
  have one: "list_all is_deck_effect [DeckGetStacks b]" by (simp add: is_deck_effect_def)
  show ?thesis
  proof (cases "\<exists>stacks done_stack. deck_get_stacks ev b = Some (200, stacks)
                  \<and> find (\<lambda>s. is_done_title (title s)) stacks = Some done_stack")
    case False
    then have "snd (move_card_to_done ev BOTS b s c st) = ?st1"
      using Some
      by (auto simp: move_card_to_done_def Let_def log_effect_def split: option.splits)
    with one show ?thesis by blast
  next
    case True
    then obtain stacks done_stack where g: "deck_get_stacks ev b = Some (200, stacks)"
      and f: "find (\<lambda>s. is_done_title (title s)) stacks = Some done_stack" by blast
    have "snd (move_card_to_done ev BOTS b s c st)
            = st\<lparr>trace := trace st @ [DeckGetStacks b, DeckReorder b s c (ident done_stack)]\<rparr>"
      using Some g f
      by (simp add: move_card_to_done_def Let_def log_effect_def split: option.splits)
    moreover have "list_all is_deck_effect [DeckGetStacks b, DeckReorder b s c (ident done_stack)]"
      by (simp add: is_deck_effect_def)
    ultimately show ?thesis by blast
  qed
qed

lemma move_card_to_done_no_done_stack:
  assumes "deck_get_stacks ev b = Some (code, stacks)"
    and "find (\<lambda>s. is_done_title (title s)) stacks = None"
  shows "fst (move_card_to_done ev BOTS b s c st) = False"
  using assms by (simp add: move_card_to_done_def Let_def split: option.splits)

lemma complete_task_writable:
  assumes "db_writable ev"
  shows "\<exists>es. list_all is_deck_effect es
     \<and> complete_task ev BOTS token tb st =
         (True, st\<lparr>task_bots := db_update_completed (db_now ev) token (task_bots st),
                   trace := trace st @ [DbUpdate token] @ es\<rparr>)"
proof -
  let ?st1 = "log_effect (DbUpdate token)
                (st\<lparr>task_bots := db_update_completed (db_now ev) token (task_bots st)\<rparr>)"
  obtain es where es: "list_all is_deck_effect es"
    and m: "snd (move_card_to_done ev BOTS (board_id tb) (stack_id tb) (card_id tb) ?st1)
              = ?st1\<lparr>trace := trace ?st1 @ es\<rparr>"
    using move_card_to_done_effects by blast
  have "complete_task ev BOTS token tb st = (True, ?st1\<lparr>trace := trace ?st1 @ es\<rparr>)"
    using assms m by (simp add: complete_task_def Let_def split_beta)
  then have "complete_task ev BOTS token tb st =
         (True, st\<lparr>task_bots := db_update_completed (db_now ev) token (task_bots st),
                   trace := trace st @ [DbUpdate token] @ es\<rparr>)"
    by (simp add: log_effect_def)
  with es show ?thesis by blast
qed

lemma complete_task_raised:
  assumes "\<not> db_writable ev"
  shows "complete_task ev BOTS token tb st
           = (False, st\<lparr>trace := trace st @ [DbUpdateRaised token]\<rparr>)"
  using assms by (simp add: complete_task_def log_effect_def)

lemma complete_and_close_writable:
  assumes "db_writable ev"
  shows "\<exists>es. list_all is_deck_effect es
     \<and> complete_and_close ev BOTS token tb st =
         ((True, send_ok ev (TaskDone (card_title tb))),
          st\<lparr>task_bots := db_update_completed (db_now ev) token (task_bots st),
             trace := trace st @ [DbUpdate token] @ es
                        @ [SendMessage token (TaskDone (card_title tb)), Sleep 3,
                           CloseConversation token]\<rparr>)"
proof -
  obtain es where es: "list_all is_deck_effect es"
    and c: "complete_task ev BOTS token tb st =
         (True, st\<lparr>task_bots := db_update_completed (db_now ev) token (task_bots st),
                   trace := trace st @ [DbUpdate token] @ es\<rparr>)"
    using complete_task_writable [OF assms] by blast
  have "complete_and_close ev BOTS token tb st =
         ((True, send_ok ev (TaskDone (card_title tb))),
          st\<lparr>task_bots := db_update_completed (db_now ev) token (task_bots st),
             trace := trace st @ [DbUpdate token] @ es
                        @ [SendMessage token (TaskDone (card_title tb)), Sleep 3,
                           CloseConversation token]\<rparr>)"
    by (simp add: complete_and_close_def c send_message_def log_effect_def
          close_conversation_def)
  with es show ?thesis by blast
qed

lemma complete_and_close_raised:
  assumes "\<not> db_writable ev"
  shows "complete_and_close ev BOTS token tb st =
           ((False, send_ok ev CompleteError),
            st\<lparr>trace := trace st @ [DbUpdateRaised token, SendMessage token CompleteError]\<rparr>)"
  by (simp add: complete_and_close_def complete_task_raised [OF assms] send_message_def
        log_effect_def)

lemma deck_effect_completion: "is_deck_effect e \<Longrightarrow> completion_effect token ttl e"
  by (cases e) (simp_all add: is_deck_effect_def completion_effect_def)

lemma complete_and_close_frame:
  "conversation_history (snd (complete_and_close ev BOTS token tb st)) = conversation_history st
   \<and> key_facts (snd (complete_and_close ev BOTS token tb st)) = key_facts st
   \<and> take (length (trace st)) (trace (snd (complete_and_close ev BOTS token tb st))) = trace st
   \<and> list_all (completion_effect token (card_title tb))
        (new_effects st (snd (complete_and_close ev BOTS token tb st)))"
proof (cases "db_writable ev")
  case True
  obtain es where es: "list_all is_deck_effect es"
    and c: "complete_and_close ev BOTS token tb st =
         ((True, send_ok ev (TaskDone (card_title tb))),
          st\<lparr>task_bots := db_update_completed (db_now ev) token (task_bots st),
             trace := trace st @ [DbUpdate token] @ es
                        @ [SendMessage token (TaskDone (card_title tb)), Sleep 3,
                           CloseConversation token]\<rparr>)"
    using complete_and_close_writable [OF True] by blast
  from es have "list_all (completion_effect token (card_title tb)) es"
    by (auto simp: list_all_iff deck_effect_completion)
  then show ?thesis
    by (simp add: c new_effects_def completion_effect_def)
next
  case False
  show ?thesis
    by (simp add: complete_and_close_raised [OF False] new_effects_def completion_effect_def)
qed

section \<open>Properties of the dispatch\<close>

lemma handle_command_None:
  "\<not> is_command (py_lower (py_strip m)) \<Longrightarrow> handle_command ev BOTS user cfg token m st = None"
  unfolding handle_command_def is_command_def Let_def
  by (simp only: list.set list_ex_Cons_iff list_ex_Nil_iff insert_iff empty_iff de_Morgan_disj
        if_False simp_thms)

lemma handle_message_not_command:
  "\<not> is_command (py_lower (py_strip m)) \<Longrightarrow>
     handle_message ev BOTS user cfg data params token actor m st
       = handle_conversation ev BOTS data params token actor m st"
  by (simp add: handle_message_def handle_command_None)

lemma affirmation_not_command: "n \<in> set affirmations \<Longrightarrow> \<not> is_command n"
  by (auto simp: affirmations_def is_command_def)

lemma affirmation_no_intent:
  assumes "py_lower (py_strip m) \<in> set affirmations"
  shows "detect_completion_intent m = None"
proof -
  have "list_all (\<lambda>n. \<not> list_ex (\<lambda>phrase. py_in phrase n) explicit_phrases
                     \<and> \<not> list_ex (\<lambda>phrase. py_in phrase n) confirm_phrases) affirmations"
    by (simp add: affirmations_def explicit_phrases_def confirm_phrases_def)
  with assms show ?thesis
    by (auto simp: detect_completion_intent_def py_strip_lower list_all_iff)
qed

lemma handle_conversation_complete:
  assumes "db_readable ev" "task_bots st token = Some tb" "status tb = ''active''"
    and "detect_completion_intent m = Some ''complete''"
  shows "handle_conversation ev BOTS data params token actor m st
           = (status_response True, snd (complete_and_close ev BOTS token tb st))"
  using assms
  by (simp add: handle_conversation_def handle_completion_intent_def get_task_bot_by_token_def
        Let_def split_beta)

lemma handle_conversation_confirm:
  assumes "db_readable ev" "task_bots st token = Some tb" "status tb = ''active''"
    and "detect_completion_intent m = Some ''confirm''"
  shows "handle_conversation ev BOTS data params token actor m st
           = (status_response True,
              st\<lparr>conversation_history :=
                   add_to_history
                     (add_to_history (conversation_history st) token ''user'' actor m (now ev 0))
                     token ''assistant'' ''Claude'' ''Vraag om bevestiging voor afronden taak''
                     (now ev 1),
                 trace := trace st @ [SendMessage token (ConfirmPrompt (card_title tb))]\<rparr>)"
  using assms
  by (simp add: handle_conversation_def handle_completion_intent_def get_task_bot_by_token_def
        Let_def send_message_def log_effect_def)

lemma handle_conversation_affirmation:
  assumes "db_readable ev" "task_bots st token = Some tb"
    and "py_lower (py_strip m) \<in> set affirmations"
    and "get_or_empty (conversation_history st) token \<noteq> []"
    and "py_in ''bevestiging voor afronden''
           (content (last (get_or_empty (conversation_history st) token)))"
  shows "handle_conversation ev BOTS data params token actor m st
           = (status_response True, snd (complete_and_close ev BOTS token tb st))"
  using assms affirmation_no_intent [OF assms(3)]
  by (simp add: handle_conversation_def handle_completion_intent_def handle_confirmation_def
        get_task_bot_by_token_def Let_def split_beta)

lemma we_zijn_klaar:
  "py_lower (py_strip ''we zijn klaar'') = ''we zijn klaar''"
  "detect_completion_intent ''we zijn klaar'' = Some ''complete''"
  "\<not> is_command ''we zijn klaar''"
  by (simp_all add: str_eval detect_completion_intent_def explicit_phrases_def is_command_def)

lemma db_update_completed_status:
  "rows token = Some tb \<Longrightarrow>
     db_update_completed t token rows token
       = Some (tb\<lparr>status := ''completed'', completed_at := Some t\<rparr>)"
  by (simp add: db_update_completed_def)

lemma complete_and_close_status:
  assumes "db_writable ev" "task_bots st token = Some tb'"
  shows "task_bots (snd (complete_and_close ev BOTS token tb st)) token
           = Some (tb'\<lparr>status := ''completed'', completed_at := Some (db_now ev)\<rparr>)"
proof -
  obtain es where "complete_and_close ev BOTS token tb st =
         ((True, send_ok ev (TaskDone (card_title tb))),
          st\<lparr>task_bots := db_update_completed (db_now ev) token (task_bots st),
             trace := trace st @ [DbUpdate token] @ es
                        @ [SendMessage token (TaskDone (card_title tb)), Sleep 3,
                           CloseConversation token]\<rparr>)"
    using complete_and_close_writable [OF assms(1)] by blast
  then show ?thesis using assms(2) by (simp add: db_update_completed_def)
qed

text \<open>
  C7. With an active task row, the message "we zijn klaar" matches no command and gets the
  verdict \<open>'complete'\<close>: the handler answers with the completion block run on the row. That
  block leaves the history as it was, and everything it does is part of the completion
  procedure, so nothing is sent to ask for a confirmation and the reasoning backend is not
  called; when the database takes the update, the row is completed.
\<close>

theorem dispatch_we_zijn_klaar:
  "db_readable ev \<and> task_bots st token = Some tb \<and> status tb = ''active'' \<longrightarrow>
     handle_message ev BOTS user cfg data params token actor ''we zijn klaar'' st
       = (status_response True, snd (complete_and_close ev BOTS token tb st))
     \<and> conversation_history
          (snd (handle_message ev BOTS user cfg data params token actor ''we zijn klaar'' st))
         = conversation_history st
     \<and> list_all (completion_effect token (card_title tb))
          (new_effects st
             (snd (handle_message ev BOTS user cfg data params token actor ''we zijn klaar'' st)))
     \<and> CallClaude \<notin> set (new_effects st
             (snd (handle_message ev BOTS user cfg data params token actor ''we zijn klaar'' st)))
     \<and> SendMessage token (ConfirmPrompt (card_title tb)) \<notin> set (new_effects st
             (snd (handle_message ev BOTS user cfg data params token actor ''we zijn klaar'' st)))
     \<and> (db_writable ev \<longrightarrow>
          task_bots
            (snd (handle_message ev BOTS user cfg data params token actor ''we zijn klaar'' st))
            token
          = Some (tb\<lparr>status := ''completed'', completed_at := Some (db_now ev)\<rparr>))"
proof (intro impI, elim conjE)
  assume a: "db_readable ev" "task_bots st token = Some tb" "status tb = ''active''"
  let ?r = "handle_message ev BOTS user cfg data params token actor ''we zijn klaar'' st"
  have r: "?r = (status_response True, snd (complete_and_close ev BOTS token tb st))"
    using a
    by (simp only: handle_message_not_command we_zijn_klaar not_False_eq_True
          handle_conversation_complete)
  note f = complete_and_close_frame [of ev BOTS token tb st]
  from f have l: "list_all (completion_effect token (card_title tb))
      (new_effects st (snd (complete_and_close ev BOTS token tb st)))" by blast
  have n1: "\<not> completion_effect token (card_title tb) CallClaude"
    and n2: "\<not> completion_effect token (card_title tb)
                 (SendMessage token (ConfirmPrompt (card_title tb)))"
    by (simp_all add: completion_effect_def)
  show "?r = (status_response True, snd (complete_and_close ev BOTS token tb st))
     \<and> conversation_history (snd ?r) = conversation_history st
     \<and> list_all (completion_effect token (card_title tb)) (new_effects st (snd ?r))
     \<and> CallClaude \<notin> set (new_effects st (snd ?r))
     \<and> SendMessage token (ConfirmPrompt (card_title tb)) \<notin> set (new_effects st (snd ?r))
     \<and> (db_writable ev \<longrightarrow>
          task_bots (snd ?r) token
          = Some (tb\<lparr>status := ''completed'', completed_at := Some (db_now ev)\<rparr>))"
    unfolding r snd_conv
    using f l n1 n2 complete_and_close_status [of ev st token tb BOTS tb] a(2)
    by (auto simp: list_all_iff)
qed

lemmas demo_defs = demo_env_def demo_state_def demo_task_def demo_bots_def demo_config_def
  demo_pending_def demo_prompt_def

lemmas completion_eval = complete_and_close_def complete_task_def move_card_to_done_def
  db_update_completed_def send_message_def close_conversation_def log_effect_def
  is_done_title_def

theorem dispatch_we_zijn_klaar_witness:
  "db_readable demo_env \<and> task_bots demo_state ''tok'' = Some demo_task
   \<and> status demo_task = ''active''
   \<and> handle_message demo_env demo_bots ''maarten'' demo_config JNull (JObj []) ''tok''
        ''Maarten'' ''we zijn klaar'' demo_state
       = (status_response True,
          snd (complete_and_close demo_env demo_bots ''tok'' demo_task demo_state))
   \<and> task_bots (snd (handle_message demo_env demo_bots ''maarten'' demo_config JNull (JObj [])
                       ''tok'' ''Maarten'' ''we zijn klaar'' demo_state)) ''tok''
       = Some (demo_task\<lparr>status := ''completed'',
                         completed_at := Some (db_now demo_env)\<rparr>)
   \<and> snd (complete_and_close demo_env demo_bots ''tok'' demo_task demo_state)
       = demo_state\<lparr>task_bots := [''tok'' \<mapsto> demo_task\<lparr>status := ''completed'',
                                        completed_at := Some ''2024-05-02 10:00:00''\<rparr>],
                     trace := [DbUpdate ''tok'', DeckGetStacks 3, DeckReorder 3 8 42 9,
                               SendMessage ''tok'' (TaskDone ''Offerte''), Sleep 3,
                               CloseConversation ''tok'']\<rparr>"
proof -
  have h: "db_readable demo_env \<and> task_bots demo_state ''tok'' = Some demo_task
      \<and> status demo_task = ''active''" "db_writable demo_env"
    by (simp_all add: demo_defs)
  have e: "snd (complete_and_close demo_env demo_bots ''tok'' demo_task demo_state)
       = demo_state\<lparr>task_bots := [''tok'' \<mapsto> demo_task\<lparr>status := ''completed'',
                                        completed_at := Some ''2024-05-02 10:00:00''\<rparr>],
                     trace := [DbUpdate ''tok'', DeckGetStacks 3, DeckReorder 3 8 42 9,
                               SendMessage ''tok'' (TaskDone ''Offerte''), Sleep 3,
                               CloseConversation ''tok'']\<rparr>"
    by (simp add: completion_eval demo_defs str_eval)
  from dispatch_we_zijn_klaar [of demo_env demo_state "''tok''" demo_task demo_bots "''maarten''"
      demo_config JNull "JObj []" "''Maarten''"] h e
  show ?thesis by blast
qed

section \<open>Failures inside the completion procedure\<close>

lemma done_norm: "py_lower (py_strip ''/done'') = ''/done''"
  by (simp add: str_eval)

lemma handle_command_done:
  assumes "db_readable ev" "task_bots st token = Some tb"
  shows "handle_command ev BOTS user cfg token ''/done'' st
           = Some (status_response (db_writable ev \<or> send_ok ev CompleteError),
                   snd (complete_and_close ev BOTS token tb st))"
proof -
  have f: "fst (complete_and_close ev BOTS token tb st)
             = (db_writable ev, if db_writable ev then send_ok ev (TaskDone (card_title tb))
                                else send_ok ev CompleteError)"
  proof (cases "db_writable ev")
    case True
    then show ?thesis using complete_and_close_writable [OF True, of BOTS token tb st] by auto
  next
    case False
    then show ?thesis by (simp add: complete_and_close_raised)
  qed
  have "handle_command ev BOTS user cfg token ''/done'' st
          = (let ((completed, sent), st1) = complete_and_close ev BOTS token tb st
             in Some (status_response (if completed then True else sent), st1))"
    unfolding handle_command_def Let_def done_norm using assms
    by (simp add: get_task_bot_by_token_def)
  then show ?thesis using f by (auto simp: split_beta)
qed

text \<open>
  C9. When the database takes the update, the completion block marks the row completed,
  sends the confirmation, sleeps and asks for the deletion of the conversation, whatever the
  Deck requests do in between; when the board has no stack whose title contains klaar, done
  or afgerond, \<open>move_card_to_done\<close> fails and that is all. When the update raises, the card
  is not touched, the error message is sent and no deletion is asked for. The command
  \<open>/done\<close> runs this block on the task row.
\<close>

theorem completion_procedure_failures:
  "(db_writable ev \<longrightarrow>
      (\<exists>es. list_all is_deck_effect es
         \<and> complete_and_close ev BOTS token tb st =
             ((True, send_ok ev (TaskDone (card_title tb))),
              st\<lparr>task_bots := db_update_completed (db_now ev) token (task_bots st),
                 trace := trace st @ [DbUpdate token] @ es
                            @ [SendMessage token (TaskDone (card_title tb)), Sleep 3,
                               CloseConversation token]\<rparr>)))
   \<and> (deck_get_stacks ev (board_id tb) = Some (code, stacks)
        \<and> find (\<lambda>s. is_done_title (title s)) stacks = None \<longrightarrow>
        \<not> fst (move_card_to_done ev BOTS (board_id tb) (stack_id tb) (card_id tb) st))
   \<and> (\<not> db_writable ev \<longrightarrow>
        complete_and_close ev BOTS token tb st =
          ((False, send_ok ev CompleteError),
           st\<lparr>trace := trace st @ [DbUpdateRaised token, SendMessage token CompleteError]\<rparr>))
   \<and> (db_readable ev \<and> task_bots st token = Some tb \<longrightarrow>
        handle_message ev BOTS user cfg data params token actor ''/done'' st
          = (status_response (db_writable ev \<or> send_ok ev CompleteError),
             snd (complete_and_close ev BOTS token tb st)))"
proof (intro conjI impI)
  assume "db_writable ev"
  then show "\<exists>es. list_all is_deck_effect es
         \<and> complete_and_close ev BOTS token tb st =
             ((True, send_ok ev (TaskDone (card_title tb))),
              st\<lparr>task_bots := db_update_completed (db_now ev) token (task_bots st),
                 trace := trace st @ [DbUpdate token] @ es
                            @ [SendMessage token (TaskDone (card_title tb)), Sleep 3,
                               CloseConversation token]\<rparr>)"
    by (rule complete_and_close_writable)
next
  assume "deck_get_stacks ev (board_id tb) = Some (code, stacks)
        \<and> find (\<lambda>s. is_done_title (title s)) stacks = None"
  then show "\<not> fst (move_card_to_done ev BOTS (board_id tb) (stack_id tb) (card_id tb) st)"
    by (simp add: move_card_to_done_no_done_stack)
next
  assume "\<not> db_writable ev"
  then show "complete_and_close ev BOTS token tb st =
          ((False, send_ok ev CompleteError),
           st\<lparr>trace := trace st @ [DbUpdateRaised token, SendMessage token CompleteError]\<rparr>)"
    by (rule complete_and_close_raised)
next
  assume "db_readable ev \<and> task_bots st token = Some tb"
  then show "handle_message ev BOTS user cfg data params token actor ''/done'' st
          = (status_response (db_writable ev \<or> send_ok ev CompleteError),
             snd (complete_and_close ev BOTS token tb st))"
    by (simp add: handle_message_def handle_command_done)
qed

theorem completion_procedure_failures_witness:
  "complete_and_close
     (demo_env\<lparr>deck_get_stacks := (\<lambda>b. Some (200, [\<lparr>title = ''Te doen'', ident = 8\<rparr>]))\<rparr>)
     demo_bots ''tok'' demo_task demo_state
     = ((True, True),
        demo_state\<lparr>task_bots := [''tok'' \<mapsto> demo_task\<lparr>status := ''completed'',
                                         completed_at := Some ''2024-05-02 10:00:00''\<rparr>],
                   trace := [DbUpdate ''tok'', DeckGetStacks 3,
                             SendMessage ''tok'' (TaskDone ''Offerte''), Sleep 3,
                             CloseConversation ''tok'']\<rparr>)
   \<and> \<not> fst (move_card_to_done
              (demo_env\<lparr>deck_get_stacks := (\<lambda>b. Some (200, [\<lparr>title = ''Te doen'', ident = 8\<rparr>]))\<rparr>)
              demo_bots 3 8 42 demo_state)
   \<and> complete_and_close (demo_env\<lparr>db_writable := False\<rparr>) demo_bots ''tok'' demo_task demo_state
     = ((False, True),
        demo_state\<lparr>trace := [DbUpdateRaised ''tok'', SendMessage ''tok'' CompleteError]\<rparr>)
   \<and> handle_message (demo_env\<lparr>db_writable := False\<rparr>) demo_bots ''maarten'' demo_config JNull
        (JObj []) ''tok'' ''Maarten'' ''/done'' demo_state
     = (status_response True,
        demo_state\<lparr>trace := [DbUpdateRaised ''tok'', SendMessage ''tok'' CompleteError]\<rparr>)"
proof -
  let ?nostack = "demo_env\<lparr>deck_get_stacks := (\<lambda>b. Some (200, [\<lparr>title = ''Te doen'', ident = 8\<rparr>]))\<rparr>"
  let ?nodb = "demo_env\<lparr>db_writable := False\<rparr>"
  have w: "db_writable ?nostack" by (simp add: demo_defs)
  have s: "deck_get_stacks ?nostack (board_id demo_task)
             = Some (200, [\<lparr>title = ''Te doen'', ident = 8\<rparr>])
           \<and> find (\<lambda>s. is_done_title (title s)) [\<lparr>title = ''Te doen'', ident = 8\<rparr>] = None"
    by (simp add: demo_defs is_done_title_def str_eval)
  have n: "\<not> db_writable ?nodb" "db_readable ?nodb \<and> task_bots demo_state ''tok'' = Some demo_task"
    by (simp_all add: demo_defs)
  have ids: "board_id demo_task = 3" "stack_id demo_task = 8" "card_id demo_task = 42"
    "send_ok ?nodb CompleteError" "trace demo_state = []"
    by (simp_all add: demo_defs)
  note T1 = completion_procedure_failures [of ?nostack demo_bots "''tok''" demo_task demo_state
      200 "[\<lparr>title = ''Te doen'', ident = 8\<rparr>]" "''maarten''" demo_config JNull "JObj []" "''Maarten''"]
  note T2 = completion_procedure_failures [of ?nodb demo_bots "''tok''" demo_task demo_state
      200 "[]" "''maarten''" demo_config JNull "JObj []" "''Maarten''"]
  have e: "complete_and_close ?nostack demo_bots ''tok'' demo_task demo_state
     = ((True, True),
        demo_state\<lparr>task_bots := [''tok'' \<mapsto> demo_task\<lparr>status := ''completed'',
                                         completed_at := Some ''2024-05-02 10:00:00''\<rparr>],
                   trace := [DbUpdate ''tok'', DeckGetStacks 3,
                             SendMessage ''tok'' (TaskDone ''Offerte''), Sleep 3,
                             CloseConversation ''tok'']\<rparr>)"
    by (simp add: completion_eval demo_defs str_eval)
  from T1 s have m: "\<not> fst (move_card_to_done ?nostack demo_bots 3 8 42 demo_state)"
    unfolding ids by blast
  from T2 n have c: "complete_and_close ?nodb demo_bots ''tok'' demo_task demo_state
     = ((False, True),
        demo_state\<lparr>trace := [DbUpdateRaised ''tok'', SendMessage ''tok'' CompleteError]\<rparr>)"
    using ids by simp
  from T2 n have "handle_message ?nodb demo_bots ''maarten'' demo_config JNull
        (JObj []) ''tok'' ''Maarten'' ''/done'' demo_state
     = (status_response (db_writable ?nodb \<or> send_ok ?nodb CompleteError),
        snd (complete_and_close ?nodb demo_bots ''tok'' demo_task demo_state))" by blast
  then have d: "handle_message ?nodb demo_bots ''maarten'' demo_config JNull
        (JObj []) ''tok'' ''Maarten'' ''/done'' demo_state
     = (status_response True,
        demo_state\<lparr>trace := [DbUpdateRaised ''tok'', SendMessage ''tok'' CompleteError]\<rparr>)"
    unfolding c using ids by simp
  from e m c d show ?thesis by blast
qed

section \<open>Confirmation and affirmation\<close>

lemma py_in_refl_prompt:
  "py_in ''bevestiging voor afronden'' ''Vraag om bevestiging voor afronden taak''"
  by simp

lemma complete_and_close_row:
  assumes "task_bots st token = Some tb'"
  shows "task_bots (snd (complete_and_close ev BOTS token tb st)) token
           = Some (if db_writable ev
                   then tb'\<lparr>status := ''completed'', completed_at := Some (db_now ev)\<rparr>
                   else tb')"
proof (cases "db_writable ev")
  case True
  then show ?thesis using complete_and_close_status [OF True assms] by simp
next
  case False
  then show ?thesis using assms by (simp add: complete_and_close_raised)
qed

lemma complete_and_close_attempt:
  "(if db_writable ev then DbUpdate token else DbUpdateRaised token)
     \<in> set (new_effects st (snd (complete_and_close ev BOTS token tb st)))"
proof (cases "db_writable ev")
  case True
  then show ?thesis
    using complete_and_close_writable [OF True, of BOTS token tb st]
    by (auto simp: new_effects_def)
next
  case False
  then show ?thesis by (simp add: complete_and_close_raised new_effects_def)
qed

text \<open>
  C8 (amended). On an active task row, a message that matches no command and gets the
  verdict \<open>'confirm'\<close> makes the handler send the confirmation prompt, once, and record the
  message and the prompt in the history; the task row is not touched. Afterwards, whenever
  the task row exists, a message whose stripped, lower-cased text is one of
  \<open>ja\<close>, \<open>yes\<close>, \<open>ok\<close>, \<open>bevestig\<close>, \<open>akkoord\<close>, while the last history entry is
  that prompt, runs the completion block, which completes the row when the database takes
  the update.
\<close>

theorem confirmation_then_affirmation:
  "(db_readable ev \<and> task_bots st token = Some tb \<and> status tb = ''active''
      \<and> \<not> is_command (py_lower (py_strip m))
      \<and> detect_completion_intent m = Some ''confirm'' \<longrightarrow>
      handle_message ev BOTS user cfg data params token actor m st
        = (status_response True,
           st\<lparr>conversation_history :=
                add_to_history
                  (add_to_history (conversation_history st) token ''user'' actor m (now ev 0))
                  token ''assistant'' ''Claude'' ''Vraag om bevestiging voor afronden taak''
                  (now ev 1),
              trace := trace st @ [SendMessage token (ConfirmPrompt (card_title tb))]\<rparr>))
   \<and> (db_readable ev \<and> task_bots st token = Some tb
        \<and> py_lower (py_strip m) \<in> {''ja'', ''yes'', ''ok'', ''bevestig'', ''akkoord''}
        \<and> get_or_empty (conversation_history st) token \<noteq> []
        \<and> content (last (get_or_empty (conversation_history st) token))
            = ''Vraag om bevestiging voor afronden taak'' \<longrightarrow>
        handle_message ev BOTS user cfg data params token actor m st
          = (status_response True, snd (complete_and_close ev BOTS token tb st))
        \<and> (db_writable ev \<longrightarrow>
             task_bots (snd (handle_message ev BOTS user cfg data params token actor m st)) token
               = Some (tb\<lparr>status := ''completed'', completed_at := Some (db_now ev)\<rparr>)))"
proof -
  have one: "handle_message ev BOTS user cfg data params token actor m st
        = (status_response True,
           st\<lparr>conversation_history :=
                add_to_history
                  (add_to_history (conversation_history st) token ''user'' actor m (now ev 0))
                  token ''assistant'' ''Claude'' ''Vraag om bevestiging voor afronden taak''
                  (now ev 1),
              trace := trace st @ [SendMessage token (ConfirmPrompt (card_title tb))]\<rparr>)"
    if a: "db_readable ev" "task_bots st token = Some tb" "status tb = ''active''"
      "\<not> is_command (py_lower (py_strip m))" "detect_completion_intent m = Some ''confirm''"
    using a by (simp only: handle_message_not_command [OF a(4)] handle_conversation_confirm)
  have two: "handle_message ev BOTS user cfg data params token actor m st
          = (status_response True, snd (complete_and_close ev BOTS token tb st))
        \<and> (db_writable ev \<longrightarrow>
             task_bots (snd (handle_message ev BOTS user cfg data params token actor m st)) token
               = Some (tb\<lparr>status := ''completed'', completed_at := Some (db_now ev)\<rparr>))"
    if a: "db_readable ev" "task_bots st token = Some tb"
      "py_lower (py_strip m) \<in> {''ja'', ''yes'', ''ok'', ''bevestig'', ''akkoord''}"
      "get_or_empty (conversation_history st) token \<noteq> []"
      "content (last (get_or_empty (conversation_history st) token))
            = ''Vraag om bevestiging voor afronden taak''"
  proof -
    from a(3) have n: "py_lower (py_strip m) \<in> set affirmations"
      by (simp add: affirmations_def)
    have p: "py_in ''bevestiging voor afronden''
               (content (last (get_or_empty (conversation_history st) token)))"
      unfolding a(5) by (rule py_in_refl_prompt)
    have r: "handle_message ev BOTS user cfg data params token actor m st
            = (status_response True, snd (complete_and_close ev BOTS token tb st))"
      by (simp only: handle_message_not_command [OF affirmation_not_command [OF n]]
            handle_conversation_affirmation [OF a(1) a(2) n a(4) p])
    show ?thesis
      unfolding r snd_conv using complete_and_close_row [OF a(2), of ev BOTS tb] by simp
  qed
  from one two show ?thesis by blast
qed

lemmas conversation_eval = handle_message_def handle_command_def handle_conversation_def
  handle_completion_intent_def handle_confirmation_def handle_default_def converse_def
  get_task_bot_by_token_def reply_with_def log_deck_comment_def deck_comment_text_def
  affirmations_def detect_completion_intent_def explicit_phrases_def confirm_phrases_def
  add_to_history_def get_or_empty_def MAX_HISTORY_MESSAGES_def py_slice_to_def
  status_response_def add_key_fact_def

theorem confirmation_then_affirmation_witness:
  "handle_message demo_env demo_bots ''maarten'' demo_config JNull (JObj []) ''tok''
     ''Maarten'' ''kunnen we afronden'' demo_state
     = (status_response True,
        demo_state\<lparr>conversation_history :=
             [''tok'' \<mapsto> [\<lparr>role = ''user'', name = ''Maarten'', content = ''kunnen we afronden'',
                             timestamp = ''2024-05-02T10:00:00''\<rparr>,
                           \<lparr>role = ''assistant'', name = ''Claude'',
                             content = ''Vraag om bevestiging voor afronden taak'',
                             timestamp = ''2024-05-02T10:00:00''\<rparr>]],
           trace := [SendMessage ''tok'' (ConfirmPrompt ''Offerte'')]\<rparr>)
   \<and> handle_message demo_env demo_bots ''maarten'' demo_config JNull (JObj []) ''tok''
       ''Maarten'' ''Ja'' demo_pending
     = (status_response True,
        snd (complete_and_close demo_env demo_bots ''tok'' demo_task demo_pending))
   \<and> task_bots (snd (handle_message demo_env demo_bots ''maarten'' demo_config JNull (JObj [])
                       ''tok'' ''Maarten'' ''Ja'' demo_pending)) ''tok''
     = Some (demo_task\<lparr>status := ''completed'', completed_at := Some (db_now demo_env)\<rparr>)"
proof -
  have h1: "db_readable demo_env \<and> task_bots demo_state ''tok'' = Some demo_task
      \<and> status demo_task = ''active''
      \<and> \<not> is_command (py_lower (py_strip ''kunnen we afronden''))
      \<and> detect_completion_intent ''kunnen we afronden'' = Some ''confirm''"
    by (simp add: demo_defs str_eval is_command_def detect_completion_intent_def
          explicit_phrases_def confirm_phrases_def)
  have h2: "db_readable demo_env \<and> task_bots demo_pending ''tok'' = Some demo_task
      \<and> py_lower (py_strip ''Ja'') \<in> {''ja'', ''yes'', ''ok'', ''bevestig'', ''akkoord''}
      \<and> get_or_empty (conversation_history demo_pending) ''tok'' \<noteq> []
      \<and> content (last (get_or_empty (conversation_history demo_pending) ''tok''))
          = ''Vraag om bevestiging voor afronden taak''"
    by (simp add: demo_defs str_eval get_or_empty_def)
  have w: "db_writable demo_env" by (simp add: demo_defs)
  have e: "add_to_history
             (add_to_history (conversation_history demo_state) ''tok'' ''user'' ''Maarten''
                ''kunnen we afronden'' (now demo_env 0))
             ''tok'' ''assistant'' ''Claude'' ''Vraag om bevestiging voor afronden taak''
             (now demo_env 1)
           = [''tok'' \<mapsto> [\<lparr>role = ''user'', name = ''Maarten'', content = ''kunnen we afronden'',
                             timestamp = ''2024-05-02T10:00:00''\<rparr>,
                           \<lparr>role = ''assistant'', name = ''Claude'',
                             content = ''Vraag om bevestiging voor afronden taak'',
                             timestamp = ''2024-05-02T10:00:00''\<rparr>]]"
    "trace demo_state = []" "card_title demo_task = ''Offerte''"
    by (simp_all add: demo_defs add_to_history_def get_or_empty_def MAX_HISTORY_MESSAGES_def)
  note T1 = confirmation_then_affirmation [of demo_env demo_state "''tok''" demo_task
      "''kunnen we afronden''" demo_bots "''maarten''" demo_config JNull "JObj []" "''Maarten''"]
  note T2 = confirmation_then_affirmation [of demo_env demo_pending "''tok''" demo_task
      "''Ja''" demo_bots "''maarten''" demo_config JNull "JObj []" "''Maarten''"]
  from T1 h1 have c1: "handle_message demo_env demo_bots ''maarten'' demo_config JNull (JObj [])
      ''tok'' ''Maarten'' ''kunnen we afronden'' demo_state
     = (status_response True,
        demo_state\<lparr>conversation_history :=
             [''tok'' \<mapsto> [\<lparr>role = ''user'', name = ''Maarten'', content = ''kunnen we afronden'',
                             timestamp = ''2024-05-02T10:00:00''\<rparr>,
                           \<lparr>role = ''assistant'', name = ''Claude'',
                             content = ''Vraag om bevestiging voor afronden taak'',
                             timestamp = ''2024-05-02T10:00:00''\<rparr>]],
           trace := [SendMessage ''tok'' (ConfirmPrompt ''Offerte'')]\<rparr>)"
    unfolding e by simp
  from T2 h2 w c1 show ?thesis by blast
qed

theorem confirmation_then_affirmation_counterexample:
  "py_lower (py_strip ''bevestigd'') = ''bevestigd''
   \<and> content (last (get_or_empty (conversation_history demo_pending) ''tok''))
       = ''Vraag om bevestiging voor afronden taak''
   \<and> task_bots (snd (handle_message demo_env demo_bots ''maarten'' demo_config JNull (JObj [])
                       ''tok'' ''Maarten'' ''bevestigd'' demo_pending)) ''tok''
       = Some demo_task
   \<and> status demo_task = ''active''
   \<and> trace (snd (handle_message demo_env demo_bots ''maarten'' demo_config JNull (JObj [])
                       ''tok'' ''Maarten'' ''bevestigd'' demo_pending))
       = [DeckComment 42 ''**Maarten:** bevestigd'',
          SendMessage ''tok'' (Working (Some ''Offerte'')),
          CallClaude,
          DeckComment 42 ''**Claude AI:** Waarmee kan ik helpen?'',
          SendMessage ''tok'' (Text ''Waarmee kan ik helpen?'')]
   \<and> detect_completion_intent ''/remember taak dicht'' = Some ''confirm''
   \<and> trace (snd (handle_message demo_env demo_bots ''maarten'' demo_config JNull (JObj [])
                       ''tok'' ''Maarten'' ''/remember taak dicht'' demo_state))
       = [SendMessage ''tok'' (Remembered ''taak dicht'')]"
  by (simp add: conversation_eval demo_defs str_eval send_message_def log_effect_def Let_def)

section \<open>A second affirmation\<close>

text \<open>
  C10. When an affirmation completes the task, the handler leaves the history as it was,
  so the confirmation prompt stays the last entry; a further affirmation for the same
  token, in a later request, runs the completion block again on the row as it is then
  (completed, when the first update was taken), and tries the update once more.
\<close>

theorem affirmation_repeats:
  "db_readable ev \<and> db_readable ev' \<and> task_bots st token = Some tb
   \<and> py_lower (py_strip m) \<in> set affirmations \<and> py_lower (py_strip m') \<in> set affirmations
   \<and> get_or_empty (conversation_history st) token \<noteq> []
   \<and> py_in ''bevestiging voor afronden''
         (content (last (get_or_empty (conversation_history st) token))) \<longrightarrow>
   (let st1 = snd (handle_message ev BOTS user cfg data params token actor m st);
        tb1 = (if db_writable ev
               then tb\<lparr>status := ''completed'', completed_at := Some (db_now ev)\<rparr> else tb);
        st2 = snd (handle_message ev' BOTS user cfg data' params' token actor' m' st1)
    in handle_message ev BOTS user cfg data params token actor m st
         = (status_response True, snd (complete_and_close ev BOTS token tb st))
       \<and> conversation_history st1 = conversation_history st
       \<and> task_bots st1 token = Some tb1
       \<and> handle_message ev' BOTS user cfg data' params' token actor' m' st1
           = (status_response True, snd (complete_and_close ev' BOTS token tb1 st1))
       \<and> (if db_writable ev' then DbUpdate token else DbUpdateRaised token)
           \<in> set (new_effects st1 st2)
       \<and> conversation_history st2 = conversation_history st)"
proof (intro impI, elim conjE)
  assume a: "db_readable ev" "db_readable ev'" "task_bots st token = Some tb"
    "py_lower (py_strip m) \<in> set affirmations" "py_lower (py_strip m') \<in> set affirmations"
    "get_or_empty (conversation_history st) token \<noteq> []"
    "py_in ''bevestiging voor afronden''
         (content (last (get_or_empty (conversation_history st) token)))"
  let ?tb1 = "if db_writable ev
               then tb\<lparr>status := ''completed'', completed_at := Some (db_now ev)\<rparr> else tb"
  let ?st1 = "snd (complete_and_close ev BOTS token tb st)"
  have r1: "handle_message ev BOTS user cfg data params token actor m st
         = (status_response True, ?st1)"
    by (simp only: handle_message_not_command [OF affirmation_not_command [OF a(4)]]
          handle_conversation_affirmation [OF a(1) a(3) a(4) a(6) a(7)])
  have h1: "conversation_history ?st1 = conversation_history st"
    using complete_and_close_frame [of ev BOTS token tb st] by blast
  have t1: "task_bots ?st1 token = Some ?tb1"
    by (rule complete_and_close_row [OF a(3)])
  have r2: "handle_message ev' BOTS user cfg data' params' token actor' m' ?st1
         = (status_response True, snd (complete_and_close ev' BOTS token ?tb1 ?st1))"
  proof -
    have a6: "get_or_empty (conversation_history ?st1) token \<noteq> []"
      unfolding h1 by (rule a(6))
    have a7: "py_in ''bevestiging voor afronden''
         (content (last (get_or_empty (conversation_history ?st1) token)))"
      unfolding h1 by (rule a(7))
    show ?thesis
      by (simp only: handle_message_not_command [OF affirmation_not_command [OF a(5)]]
            handle_conversation_affirmation [OF a(2) t1 a(5) a6 a7])
  qed
  have e2: "(if db_writable ev' then DbUpdate token else DbUpdateRaised token)
           \<in> set (new_effects ?st1 (snd (complete_and_close ev' BOTS token ?tb1 ?st1)))"
    by (rule complete_and_close_attempt)
  have h2: "conversation_history (snd (complete_and_close ev' BOTS token ?tb1 ?st1))
              = conversation_history st"
    using complete_and_close_frame [of ev' BOTS token ?tb1 ?st1] h1 by simp
  show "(let st1 = snd (handle_message ev BOTS user cfg data params token actor m st);
        tb1 = (if db_writable ev
               then tb\<lparr>status := ''completed'', completed_at := Some (db_now ev)\<rparr> else tb);
        st2 = snd (handle_message ev' BOTS user cfg data' params' token actor' m' st1)
    in handle_message ev BOTS user cfg data params token actor m st
         = (status_response True, snd (complete_and_close ev BOTS token tb st))
       \<and> conversation_history st1 = conversation_history st
       \<and> task_bots st1 token = Some tb1
       \<and> handle_message ev' BOTS user cfg data' params' token actor' m' st1
           = (status_response True, snd (complete_and_close ev' BOTS token tb1 st1))
       \<and> (if db_writable ev' then DbUpdate token else DbUpdateRaised token)
           \<in> set (new_effects st1 st2)
       \<and> conversation_history st2 = conversation_history st)"
    unfolding Let_def r1 snd_conv r2
    using h1 t1 e2 h2 by (intro conjI) (rule refl, assumption+, rule refl, assumption+)
qed

theorem affirmation_repeats_witness:
  "(let st1 = snd (handle_message demo_env demo_bots ''maarten'' demo_config JNull (JObj [])
                     ''tok'' ''Maarten'' ''ja'' demo_pending);
        st2 = snd (handle_message demo_env demo_bots ''maarten'' demo_config JNull (JObj [])
                     ''tok'' ''Maarten'' ''ja'' st1)
    in conversation_history st1 = conversation_history demo_pending
       \<and> last (get_or_empty (conversation_history st1) ''tok'') = demo_prompt
       \<and> map_option status (task_bots st1 ''tok'') = Some ''completed''
       \<and> DbUpdate ''tok'' \<in> set (new_effects st1 st2)
       \<and> conversation_history st2 = conversation_history demo_pending)"
proof -
  have h: "db_readable demo_env \<and> db_readable demo_env
      \<and> task_bots demo_pending ''tok'' = Some demo_task
      \<and> py_lower (py_strip ''ja'') \<in> set affirmations
      \<and> py_lower (py_strip ''ja'') \<in> set affirmations
      \<and> get_or_empty (conversation_history demo_pending) ''tok'' \<noteq> []
      \<and> py_in ''bevestiging voor afronden''
            (content (last (get_or_empty (conversation_history demo_pending) ''tok'')))"
    by (simp add: demo_defs str_eval get_or_empty_def affirmations_def)
  have w: "db_writable demo_env"
    and l: "last (get_or_empty (conversation_history demo_pending) ''tok'') = demo_prompt"
    by (simp_all add: demo_defs get_or_empty_def)
  note T = affirmation_repeats [of demo_env demo_env demo_pending "''tok''" demo_task "''ja''"
      "''ja''" demo_bots "''maarten''" demo_config JNull "JObj []" "''Maarten''" JNull "JObj []"
      "''Maarten''", rule_format, OF h]
  show ?thesis
    using T w l unfolding Let_def by (auto simp del: status_response_def)
qed

section \<open>Rejected requests\<close>

lemma handle_webhook_unknown_bot:
  "BOTS user = None \<Longrightarrow>
     handle_webhook ev BOTS user req st = (Inr ((''error'', ''Unknown bot''), 404), st)"
  by (simp add: handle_webhook_def)

lemma handle_webhook_invalid_signature:
  assumes "BOTS user = Some cfg"
    and "verify_signature (secret cfg) (header req ''X-Nextcloud-Talk-Random'') (req_body req)
           (header req ''X-Nextcloud-Talk-Signature'') = Inr False"
  shows "handle_webhook ev BOTS user req st
           = (Inr ((''error'', ''Invalid signature''), 401),
              st\<lparr>trace := trace st @ [VerifySignature]\<rparr>)"
  using assms by (simp add: handle_webhook_def Let_def log_effect_def)

lemma handle_webhook_invalid_json:
  assumes "BOTS user = Some cfg"
    and "verify_signature (secret cfg) (header req ''X-Nextcloud-Talk-Random'') (req_body req)
           (header req ''X-Nextcloud-Talk-Signature'') = Inr True"
    and "json_loads ev (req_body req) = Inr None"
  shows "handle_webhook ev BOTS user req st
           = (Inr ((''error'', ''Invalid JSON''), 400),
              st\<lparr>trace := trace st @ [VerifySignature, JsonLoads]\<rparr>)"
  using assms by (simp add: handle_webhook_def Let_def log_effect_def)

lemma handle_webhook_json_raises:
  assumes "BOTS user = Some cfg"
    and "verify_signature (secret cfg) (header req ''X-Nextcloud-Talk-Random'') (req_body req)
           (header req ''X-Nextcloud-Talk-Signature'') = Inr True"
    and "json_loads ev (req_body req) = Inl e"
  shows "handle_webhook ev BOTS user req st
           = (Inl e, st\<lparr>trace := trace st @ [VerifySignature, JsonLoads]\<rparr>)"
  using assms by (simp add: handle_webhook_def Let_def log_effect_def)

lemma handle_webhook_signature_raises:
  assumes "BOTS user = Some cfg"
    and "verify_signature (secret cfg) (header req ''X-Nextcloud-Talk-Random'') (req_body req)
           (header req ''X-Nextcloud-Talk-Signature'') = Inl e"
  shows "handle_webhook ev BOTS user req st
           = (Inl e, st\<lparr>trace := trace st @ [VerifySignature]\<rparr>)"
  using assms by (simp add: handle_webhook_def Let_def log_effect_def)

text \<open>
  The three rejections, for a signature of ASCII characters: an unknown bot is answered 404
  and nothing is done; a signature whose lower-cased form is not the digest (or any
  signature, when the secret is empty) is answered 401 after \<open>verify_signature\<close> alone; a
  body on which \<open>json.loads\<close> raises \<open>JSONDecodeError\<close> is answered 400. In all three the stores and the task
  rows are as before.
\<close>

lemma handle_webhook_rejections:
  "(BOTS user = None \<longrightarrow>
      handle_webhook ev BOTS user req st = (Inr ((''error'', ''Unknown bot''), 404), st))
   \<and> (BOTS user = Some cfg
        \<and> list_all is_ascii (header req ''X-Nextcloud-Talk-Signature'')
        \<and> (secret cfg = []
            \<or> py_lower (header req ''X-Nextcloud-Talk-Signature'')
                 \<noteq> hmac_sha256_hex (secret cfg)
                      (header req ''X-Nextcloud-Talk-Random'' @ req_body req)) \<longrightarrow>
        handle_webhook ev BOTS user req st
          = (Inr ((''error'', ''Invalid signature''), 401),
             st\<lparr>trace := trace st @ [VerifySignature]\<rparr>))
   \<and> (BOTS user = Some cfg \<and> secret cfg \<noteq> []
        \<and> list_all is_ascii (header req ''X-Nextcloud-Talk-Signature'')
        \<and> py_lower (header req ''X-Nextcloud-Talk-Signature'')
             = hmac_sha256_hex (secret cfg) (header req ''X-Nextcloud-Talk-Random'' @ req_body req)
        \<and> json_loads ev (req_body req) = Inr None \<longrightarrow>
        handle_webhook ev BOTS user req st
          = (Inr ((''error'', ''Invalid JSON''), 400),
             st\<lparr>trace := trace st @ [VerifySignature, JsonLoads]\<rparr>))"
proof (intro conjI impI)
  assume "BOTS user = None"
  then show "handle_webhook ev BOTS user req st = (Inr ((''error'', ''Unknown bot''), 404), st)"
    by (rule handle_webhook_unknown_bot)
next
  assume a: "BOTS user = Some cfg
        \<and> list_all is_ascii (header req ''X-Nextcloud-Talk-Signature'')
        \<and> (secret cfg = []
            \<or> py_lower (header req ''X-Nextcloud-Talk-Signature'')
                 \<noteq> hmac_sha256_hex (secret cfg)
                      (header req ''X-Nextcloud-Talk-Random'' @ req_body req))"
  then have "verify_signature (secret cfg) (header req ''X-Nextcloud-Talk-Random'') (req_body req)
           (header req ''X-Nextcloud-Talk-Signature'') = Inr False"
    by (cases "secret cfg = []")
       (auto simp: verify_signature_empty_secret verify_signature_ascii)
  with a show "handle_webhook ev BOTS user req st
          = (Inr ((''error'', ''Invalid signature''), 401),
             st\<lparr>trace := trace st @ [VerifySignature]\<rparr>)"
    by (simp add: handle_webhook_invalid_signature)
next
  assume a: "BOTS user = Some cfg \<and> secret cfg \<noteq> []
        \<and> list_all is_ascii (header req ''X-Nextcloud-Talk-Signature'')
        \<and> py_lower (header req ''X-Nextcloud-Talk-Signature'')
             = hmac_sha256_hex (secret cfg) (header req ''X-Nextcloud-Talk-Random'' @ req_body req)
        \<and> json_loads ev (req_body req) = Inr None"
  then have "verify_signature (secret cfg) (header req ''X-Nextcloud-Talk-Random'') (req_body req)
           (header req ''X-Nextcloud-Talk-Signature'') = Inr True"
    by (simp add: verify_signature_ascii)
  with a show "handle_webhook ev BOTS user req st
          = (Inr ((''error'', ''Invalid JSON''), 400),
             st\<lparr>trace := trace st @ [VerifySignature, JsonLoads]\<rparr>)"
    by (simp add: handle_webhook_invalid_json)
qed

text \<open>
  C2, at a signature header that holds the one character U+00E9: \<open>hmac.compare_digest\<close>
  raises \<open>TypeError\<close> inside \<open>verify_signature\<close>, nothing in \<open>handle_webhook\<close> catches it,
  and the request is not answered 401. The body is not parsed and the stores and the task
  rows are as before.
\<close>

theorem handle_webhook_non_ascii_signature:
  "handle_webhook demo_env demo_bots ''maarten''
     \<lparr>req_headers = [''X-Nextcloud-Talk-Signature'' \<mapsto> [CHR 0xE9],
                      ''X-Nextcloud-Talk-Random'' \<mapsto> ''abc''],
      req_body = ''{}''\<rparr> demo_state
   = (Inl TypeError, demo_state\<lparr>trace := [VerifySignature]\<rparr>)"
proof -
  let ?req = "\<lparr>req_headers = [''X-Nextcloud-Talk-Signature'' \<mapsto> [CHR 0xE9],
                      ''X-Nextcloud-Talk-Random'' \<mapsto> ''abc''],
      req_body = ''{}''\<rparr>"
  have h: "header ?req ''X-Nextcloud-Talk-Signature'' = [CHR 0xE9]"
    "header ?req ''X-Nextcloud-Talk-Random'' = ''abc''"
    by (simp_all add: header_def)
  have n: "\<not> list_all is_ascii (py_lower [CHR 0xE9])"
    by (simp add: py_lower_def py_lower_char_def is_ascii_def)
  have s: "secret demo_config \<noteq> []" by (simp add: demo_config_def)
  have v: "verify_signature (secret demo_config) (header ?req ''X-Nextcloud-Talk-Random'')
             (req_body ?req) (header ?req ''X-Nextcloud-Talk-Signature'') = Inl TypeError"
    unfolding h by (rule verify_signature_non_ascii [OF s n])
  have b: "demo_bots ''maarten'' = Some demo_config" by (simp add: demo_bots_def)
  have t: "trace demo_state = []" by (simp add: demo_state_def)
  show ?thesis
    using handle_webhook_signature_raises [where BOTS = demo_bots and user = "''maarten''"
        and cfg = demo_config and req = ?req and e = TypeError and ev = demo_env
        and st = demo_state] b v t
    by simp
qed

end
